theory Spec2Isabelle
  imports Complex_Main
begin

section \<open>Numbers and JSON values\<close>

text \<open>
  The repository is TypeScript; every \<^verbatim>\<open>number\<close> is an IEEE-754 double. Finite numbers are
  modelled as reals and \<^verbatim>\<open>+ - * /\<close>, \<^verbatim>\<open>Math.sqrt\<close>, \<^verbatim>\<open>Math.log\<close>, \<^verbatim>\<open>Math.pow(x, 2)\<close>
  as the exact operations. Two refinements are made where a property depends on them.
  Where the source can divide by zero or take the logarithm of zero the model uses
  \<open>jsnum\<close>, which adds the non-finite doubles, with the operations of ECMAScript on them
  (the two zeros are not distinguished; the only zero divisor in the source is an array
  length minus one, which is \<open>+0\<close>). Where the rounding of the arithmetic decides a
  property, each operation is followed by \<open>f64\<close>, the rounding to the nearest double.
  \<^verbatim>\<open>xs.reduce(f, init)\<close> is \<open>foldl f init xs\<close>, \<^verbatim>\<open>xs.length\<close> is \<open>length xs\<close>.
\<close>

datatype jsnum = Fin real | PosInf | NegInf | NaN

fun js_neg :: "jsnum \<Rightarrow> jsnum" where
  "js_neg (Fin a) = Fin (- a)"
| "js_neg PosInf = NegInf"
| "js_neg NegInf = PosInf"
| "js_neg NaN = NaN"

fun js_add :: "jsnum \<Rightarrow> jsnum \<Rightarrow> jsnum" where
  "js_add NaN y = NaN"
| "js_add x NaN = NaN"
| "js_add (Fin a) (Fin b) = Fin (a + b)"
| "js_add PosInf NegInf = NaN"
| "js_add NegInf PosInf = NaN"
| "js_add PosInf y = PosInf"
| "js_add x PosInf = PosInf"
| "js_add NegInf y = NegInf"
| "js_add x NegInf = NegInf"

definition js_sub :: "jsnum \<Rightarrow> jsnum \<Rightarrow> jsnum" where
  "js_sub x y = js_add x (js_neg y)"

text \<open>\<^verbatim>\<open>x / d\<close> for a finite divisor \<open>d\<close> that is a count (never \<open>-0\<close>).\<close>

fun js_div :: "jsnum \<Rightarrow> real \<Rightarrow> jsnum" where
  "js_div NaN d = NaN"
| "js_div (Fin a) d =
     (if d = 0 then (if a = 0 then NaN else if 0 < a then PosInf else NegInf)
      else Fin (a / d))"
| "js_div PosInf d = (if 0 \<le> d then PosInf else NegInf)"
| "js_div NegInf d = (if 0 \<le> d then NegInf else PosInf)"

text \<open>\<^verbatim>\<open>Math.pow(x, 2)\<close>, \<^verbatim>\<open>Math.sqrt\<close>, \<^verbatim>\<open>Math.log\<close>, \<^verbatim>\<open>Math.min\<close>, \<^verbatim>\<open>Math.max\<close>.\<close>

fun js_pow2 :: "jsnum \<Rightarrow> jsnum" where
  "js_pow2 (Fin a) = Fin (a\<^sup>2)"
| "js_pow2 PosInf = PosInf"
| "js_pow2 NegInf = PosInf"
| "js_pow2 NaN = NaN"

fun js_sqrt :: "jsnum \<Rightarrow> jsnum" where
  "js_sqrt (Fin a) = (if a < 0 then NaN else Fin (sqrt a))"
| "js_sqrt PosInf = PosInf"
| "js_sqrt NegInf = NaN"
| "js_sqrt NaN = NaN"

definition js_log :: "real \<Rightarrow> jsnum" where
  "js_log x = (if x < 0 then NaN else if x = 0 then NegInf else Fin (ln x))"

fun js_min :: "jsnum \<Rightarrow> jsnum \<Rightarrow> jsnum" where
  "js_min NaN y = NaN"
| "js_min x NaN = NaN"
| "js_min NegInf y = NegInf"
| "js_min x NegInf = NegInf"
| "js_min PosInf y = y"
| "js_min x PosInf = x"
| "js_min (Fin a) (Fin b) = Fin (min a b)"

fun js_max :: "jsnum \<Rightarrow> jsnum \<Rightarrow> jsnum" where
  "js_max NaN y = NaN"
| "js_max x NaN = NaN"
| "js_max PosInf y = PosInf"
| "js_max x PosInf = PosInf"
| "js_max NegInf y = y"
| "js_max x NegInf = x"
| "js_max (Fin a) (Fin b) = Fin (max a b)"

text \<open>\<^verbatim>\<open>Math.round\<close> rounds to the nearest integer, a half towards \<open>+\<infinity>\<close>.\<close>

definition js_round :: "real \<Rightarrow> int" where
  "js_round x = \<lfloor>x + 1 / 2\<rfloor>"

text \<open>\<^verbatim>\<open>x || d\<close> on a number that may be absent: \<open>0\<close> and \<^verbatim>\<open>undefined\<close> are falsy.\<close>

definition js_or :: "real option \<Rightarrow> real \<Rightarrow> real" where
  "js_or x d = (case x of None \<Rightarrow> d | Some v \<Rightarrow> if v = 0 then d else v)"

subsection \<open>Rounding to binary64\<close>

text \<open>
  \<open>f64 x\<close> is the double nearest to \<open>x\<close>, a tie going to the even significand: with
  \<open>2\<^sup>e \<le> |x| < 2\<^sup>e\<^sup>+\<^sup>1\<close> the doubles around \<open>x\<close> are the multiples of \<open>2\<^sup>e\<^sup>-\<^sup>5\<^sup>2\<close>. This is
  the rounding of the normal range (no overflow, no subnormal numbers). The arithmetic
  of the engine is the exact operation followed by this rounding; \<^verbatim>\<open>Math.sqrt\<close> is the
  correctly rounded square root.
\<close>

definition f64 :: "real \<Rightarrow> real" where
  "f64 x =
     (if x = 0 then 0
      else
        let e = \<lfloor>log 2 \<bar>x\<bar>\<rfloor>;
            ulp = 2 powr (of_int e - 52);
            q = x / ulp;
            f = \<lfloor>q\<rfloor>;
            r = q - of_int f
        in of_int (if r < 1 / 2 then f else if 1 / 2 < r then f + 1
                   else if even f then f else f + 1) * ulp)"

definition f64_add :: "real \<Rightarrow> real \<Rightarrow> real" where
  "f64_add a b = f64 (a + b)"

definition f64_sub :: "real \<Rightarrow> real \<Rightarrow> real" where
  "f64_sub a b = f64 (a - b)"

definition f64_mul :: "real \<Rightarrow> real \<Rightarrow> real" where
  "f64_mul a b = f64 (a * b)"

definition f64_div :: "real \<Rightarrow> real \<Rightarrow> real" where
  "f64_div a b = f64 (a / b)"

definition f64_sqrt :: "real \<Rightarrow> real" where
  "f64_sqrt a = f64 (sqrt a)"

text \<open>
  Object literals that leave the typed code (the body of a JSON response, the argument of
  \<^verbatim>\<open>JSON.stringify\<close>) are JSON values: an object is the list of its keys with their
  values, in the order of the literal. Reading a key that is absent gives
  \<^verbatim>\<open>undefined\<close>.
\<close>

datatype jsval =
    JNum jsnum
  | JStr string
  | JArr "jsval list"
  | JObj "(string \<times> jsval) list"
  | JUndefined

abbreviation jnum :: "real \<Rightarrow> jsval" where
  "jnum x \<equiv> JNum (Fin x)"

fun obj_get :: "jsval \<Rightarrow> string \<Rightarrow> jsval" where
  "obj_get (JObj fields) k = (case map_of fields k of None \<Rightarrow> JUndefined | Some v \<Rightarrow> v)"
| "obj_get v k = JUndefined"

fun obj_keys :: "jsval \<Rightarrow> string list" where
  "obj_keys (JObj fields) = map fst fields"
| "obj_keys v = []"

section \<open>Types of the \<^verbatim>\<open>shared\<close> package\<close>

datatype Regime = BULL | BEAR

record HestonParams =
  kappa :: real
  theta :: real
  xi :: real
  rho :: real

record RegimeState =
  current :: Regime
  probabilities :: "real \<times> real"

record BTCCandle =
  time :: real
  "open" :: real
  high :: real
  low :: real
  close :: real
  volume :: real

section \<open>Math utilities (\<^verbatim>\<open>shared\<close> package)\<close>

text \<open>
  \<^verbatim>\<open>wilsonCI(successes, n, confidence = 0.95)\<close>; the default argument is passed
  explicitly.
\<close>

definition wilsonCI :: "real \<Rightarrow> real \<Rightarrow> real \<Rightarrow> real \<times> real" where
  "wilsonCI successes n confidence =
     (if n = 0 then (0, 1)
      else
        let p = successes / n;
            z = (if confidence = 95 / 100 then 196 / 100 else 2576 / 1000);
            zsq = z * z;
            denominator = 1 + zsq / n;
            center = (p + zsq / (2 * n)) / denominator;
            margin = (z * sqrt (p * (1 - p) / n + zsq / (4 * n * n))) / denominator
        in (max 0 (center - margin), min 1 (center + margin)))"

text \<open>
  The same function with the arithmetic of the engine: the decimal literals are the
  doubles nearest to them, and every operation rounds. The arguments are doubles.
\<close>

definition wilsonCI_f64 :: "real \<Rightarrow> real \<Rightarrow> real \<Rightarrow> real \<times> real" where
  "wilsonCI_f64 successes n confidence =
     (if n = 0 then (0, 1)
      else
        let p = f64_div successes n;
            z = (if confidence = f64 (95 / 100) then f64 (196 / 100) else f64 (2576 / 1000));
            zsq = f64_mul z z;
            denominator = f64_add 1 (f64_div zsq n);
            center = f64_div (f64_add p (f64_div zsq (f64_mul 2 n))) denominator;
            margin = f64_div
              (f64_mul z (f64_sqrt (f64_add (f64_div (f64_mul p (f64_sub 1 p)) n)
                                      (f64_div zsq (f64_mul (f64_mul 4 n) n)))))
              denominator
        in (max 0 (f64_sub center margin), min 1 (f64_add center margin)))"

datatype action = BUY_YES | SELL_YES | BUY_NO | SELL_NO

fun calculateEV :: "real \<Rightarrow> action \<Rightarrow> real \<Rightarrow> real" where
  "calculateEV probability BUY_YES price = 100 * probability - price"
| "calculateEV probability SELL_YES price = price - 100 * (1 - probability)"
| "calculateEV probability BUY_NO price = 100 * (1 - probability) - price"
| "calculateEV probability SELL_NO price = price - 100 * probability"

definition realizedVolatility :: "real list \<Rightarrow> real" where
  "realizedVolatility returns =
     (if length returns < 2 then 0
      else
        let mean = foldl (\<lambda>sum r. sum + r) 0 returns / real (length returns);
            variance =
              foldl (\<lambda>sum r. sum + (r - mean)\<^sup>2) 0 returns / (real (length returns) - 1)
        in sqrt variance)"

text \<open>
  The same function in the arithmetic of the engine: the sums are taken from left to
  right, each operation rounds, and \<^verbatim>\<open>Math.pow(x, 2)\<close> is the rounded square. The count
  \<^verbatim>\<open>returns.length - 1\<close> is an integer.
\<close>

definition realizedVolatility_f64 :: "real list \<Rightarrow> real" where
  "realizedVolatility_f64 returns =
     (if length returns < 2 then 0
      else
        let mean = f64_div (foldl (\<lambda>sum r. f64_add sum r) 0 returns) (real (length returns));
            variance =
              f64_div (foldl (\<lambda>sum r. f64_add sum (f64 ((f64_sub r mean)\<^sup>2))) 0 returns)
                (real (length returns) - 1)
        in f64_sqrt variance)"

definition parkinsonVolatility :: "BTCCandle list \<Rightarrow> real" where
  "parkinsonVolatility candles =
     (if length candles = 0 then 0
      else
        let factor = 1 / (4 * ln 2);
            sum = foldl (\<lambda>acc candle.
                    let ratio = high candle / low candle in acc + (ln ratio)\<^sup>2) 0 candles
        in sqrt (factor * sum / real (length candles)))"

text \<open>
  \<^verbatim>\<open>ewmaVolatility(returns, lambda = 0.94)\<close>: the \<^verbatim>\<open>forEach\<close> over the returns with their
  index is \<open>ewma_loop\<close>, which carries the variable \<^verbatim>\<open>variance\<close>.
\<close>

fun ewma_loop :: "real \<Rightarrow> real \<Rightarrow> nat \<Rightarrow> real list \<Rightarrow> real" where
  "ewma_loop lam variance i [] = variance"
| "ewma_loop lam variance i (r # rs) =
     ewma_loop lam (if i = 0 then r * r else lam * variance + (1 - lam) * r * r) (Suc i) rs"

definition ewmaVolatility :: "real list \<Rightarrow> real \<Rightarrow> real" where
  "ewmaVolatility returns lam =
     (if length returns = 0 then 0 else sqrt (ewma_loop lam 0 0 returns))"

text \<open>
  \<^verbatim>\<open>detectJumps(returns, threshold = 3)\<close>. On the empty array the source's mean is
  \<^verbatim>\<open>0 / 0\<close>, which no element is compared with: the result is the empty array.
\<close>

definition detectJumps :: "real list \<Rightarrow> real \<Rightarrow> real list" where
  "detectJumps returns threshold =
     (let vol = realizedVolatility returns;
          mean = foldl (\<lambda>sum r. sum + r) 0 returns / real (length returns)
      in filter (\<lambda>r. \<bar>r - mean\<bar> > threshold * vol) returns)"

subsection \<open>Constants\<close>

definition DEFAULT_HESTON_PARAMS :: HestonParams where
  "DEFAULT_HESTON_PARAMS = \<lparr>kappa = 2, theta = 4 / 100, xi = 3 / 10, rho = - (5 / 10)\<rparr>"

text \<open>
  The keys of this object literal are \<^verbatim>\<open>lambda\<close>, \<^verbatim>\<open>muJ\<close>, \<^verbatim>\<open>sigmaJ\<close> and \<^verbatim>\<open>kind\<close>. It is
  returned and serialised where a \<^verbatim>\<open>JumpParams\<close> (keys \<^verbatim>\<open>mu_j\<close>, \<^verbatim>\<open>sigma_j\<close>) is declared,
  so it is kept as the object it is.
\<close>

definition DEFAULT_JUMP_PARAMS :: jsval where
  "DEFAULT_JUMP_PARAMS =
     JObj [(''lambda'', jnum (1 / 10)), (''muJ'', jnum 0), (''sigmaJ'', jnum (2 / 100)),
           (''kind'', JStr ''merton'')]"

section \<open>Calibration route (\<^verbatim>\<open>app/api/calibrate/route.ts\<close>)\<close>

definition CACHE_TTL :: real where
  "CACHE_TTL = 120000"

text \<open>
  \<^verbatim>\<open>calculateReturns\<close>: the loop over \<open>i = 1 .. length - 1\<close> pushes
  \<^verbatim>\<open>Math.log(candles[i].close / candles[i - 1].close)\<close>. Closing prices are positive.
\<close>

fun calculateReturns :: "BTCCandle list \<Rightarrow> real list" where
  "calculateReturns (a # b # candles) = ln (close b / close a) # calculateReturns (b # candles)"
| "calculateReturns candles = []"

text \<open>
  \<^verbatim>\<open>estimateJumpParams(returns, threshold = 3)\<close>. The logarithms of the jumps and what is
  computed from them are \<open>jsnum\<close>: a jump of \<open>0\<close> has logarithm \<open>-\<infinity>\<close>, and with one jump
  the divisor \<^verbatim>\<open>logJumps.length - 1\<close> is \<open>0\<close>. The result is the object the function returns.
\<close>

definition estimateJumpParams :: "real list \<Rightarrow> real \<Rightarrow> jsval" where
  "estimateJumpParams returns threshold =
     (let jumps = detectJumps returns threshold in
      if length jumps = 0 then DEFAULT_JUMP_PARAMS
      else
        let lambda = real (length jumps) / real (length returns);
            logJumps = map (\<lambda>j. js_log \<bar>j\<bar>) jumps;
            mu_j = js_div (foldl (\<lambda>sum j. js_add sum j) (Fin 0) logJumps)
                     (real (length logJumps));
            sigma_j = js_sqrt
                     (js_div (foldl (\<lambda>sum j. js_add sum (js_pow2 (js_sub j mu_j))) (Fin 0) logJumps)
                        (real (length logJumps) - 1))
        in JObj [(''lambda'', jnum (max (1 / 100) (min 1 lambda))),
                 (''mu_j'', jnum 0),
                 (''sigma_j'', JNum (js_max (Fin (1 / 100)) (js_min (Fin (1 / 10)) sigma_j))),
                 (''kind'', JStr ''merton'')])"

text \<open>\<^verbatim>\<open>returns.slice(-20)\<close>: the last 20 elements, all of them when there are fewer.\<close>

definition slice_last :: "nat \<Rightarrow> 'a list \<Rightarrow> 'a list" where
  "slice_last k xs = drop (length xs - k) xs"

text \<open>
  \<^verbatim>\<open>detectRegime\<close> branches on the computed average and volatility, so it is modelled in
  the arithmetic of the engine. The decimal literals are the doubles nearest to them;
  \<open>0.5\<close>, \<open>0\<close> and \<open>1\<close> are doubles.
\<close>

definition detectRegime :: "real list \<Rightarrow> RegimeState" where
  "detectRegime returns =
     (if length returns < 10 then \<lparr>current = BULL, probabilities = (5 / 10, 5 / 10)\<rparr>
      else
        let recentReturns = slice_last 20 returns;
            avgReturn = f64_div (foldl (\<lambda>sum r. f64_add sum r) 0 recentReturns)
                          (real (length recentReturns));
            vol = realizedVolatility_f64 recentReturns;
            bullScore = f64_add (if avgReturn > 0 then f64 (6 / 10) else f64 (4 / 10))
                          (if vol < f64 (2 / 100) then f64 (2 / 10) else 0);
            bearScore = f64_sub 1 bullScore
        in \<lparr>current = (if bullScore > bearScore then BULL else BEAR),
            probabilities = (bullScore, bearScore)\<rparr>)"

text \<open>
  \<^verbatim>\<open>calibrateHestonParams\<close> branches on the computed difference of two volatilities, so
  it too is modelled in the arithmetic of the engine. \<open>0.5\<close>, \<open>0.25\<close>, \<open>1\<close>, \<open>2\<close>, \<open>3\<close> and
  \<open>5\<close> are doubles; \<^verbatim>\<open>Math.abs\<close>, \<^verbatim>\<open>Math.min\<close> and \<^verbatim>\<open>Math.max\<close> are exact. The division by
  \<^verbatim>\<open>dailyRV\<close> is that of a non-zero divisor: the statements about this function take
  \<open>dailyRV > 0\<close>.
\<close>

definition calibrateHestonParams :: "real \<Rightarrow> real \<Rightarrow> real \<Rightarrow> HestonParams" where
  "calibrateHestonParams dailyRV weeklyRV intradayRV =
     (let theta = f64_add (f64_mul (f64_mul (f64 (7 / 10)) dailyRV) dailyRV)
                    (f64_mul (f64_mul (f64 (3 / 10)) weeklyRV) weeklyRV);
          kappa = (if \<bar>f64_sub intradayRV dailyRV\<bar> > f64 (1 / 100) then 3 else 2);
          xi = min (5 / 10) (f64_div \<bar>f64_sub intradayRV dailyRV\<bar> dailyRV);
          rho = - (5 / 10)
      in \<lparr>kappa = max (5 / 10) (min 5 kappa),
          theta = max (f64 (1 / 10000)) (min (25 / 100) theta),
          xi = max (f64 (1 / 10)) (min 1 xi),
          rho = max (f64 (- (9 / 10))) (min (f64 (- (1 / 10))) rho)\<rparr>)"

text \<open>
  The handler \<^verbatim>\<open>GET\<close>. Its state is the module variable \<^verbatim>\<open>calibrationCache\<close>; its inputs are
  the readings of \<^verbatim>\<open>Date.now()\<close> (at the cache check, for the \<^verbatim>\<open>timestamp\<close> of the data, and
  for the cache entry) and the outcome of the three candle requests of
  \<^verbatim>\<open>fetchHistoricalCandles\<close> (minute, hourly, daily): \<open>Inl\<close> when one of them throws, which
  takes the \<^verbatim>\<open>catch\<close> branch. The result is the new cache and the body of the JSON
  response.
\<close>

record calibrationCache =
  data :: "jsval option"
  timestamp :: real

datatype fetch_error = FetchFailed string

definition regime_json :: "RegimeState \<Rightarrow> jsval" where
  "regime_json r =
     JObj [(''current'', JStr (case current r of BULL \<Rightarrow> ''BULL'' | BEAR \<Rightarrow> ''BEAR'')),
           (''probabilities'', JArr [jnum (fst (probabilities r)), jnum (snd (probabilities r))])]"

definition GET ::
  "calibrationCache \<Rightarrow> real \<Rightarrow> real \<Rightarrow> real \<Rightarrow>
   fetch_error + BTCCandle list \<times> BTCCandle list \<times> BTCCandle list \<Rightarrow>
   calibrationCache \<times> jsval" where
  "GET cache now_check now_data now_cache fetched =
     (if data cache \<noteq> None \<and> now_check - calibrationCache.timestamp cache < CACHE_TTL
      then (cache, the (data cache))
      else
          (case fetched of
             Inr (minuteCandles, hourlyCandles, dailyCandles) \<Rightarrow>
               let minuteReturns = calculateReturns minuteCandles;
                   hourlyReturns = calculateReturns hourlyCandles;
                   dailyReturns = calculateReturns dailyCandles;
                   intradayRV = ewmaVolatility minuteReturns (94 / 100);
                   dailyRV = realizedVolatility hourlyReturns;
                   weeklyRV = realizedVolatility dailyReturns;
                   parkinsonDailyRV = parkinsonVolatility hourlyCandles;
                   blendedDailyRV = 7 / 10 * dailyRV + 3 / 10 * parkinsonDailyRV;
                   hestonParams = calibrateHestonParams blendedDailyRV weeklyRV intradayRV;
                   jumpParams = estimateJumpParams minuteReturns 3;
                   regime = detectRegime minuteReturns;
                   calibrationData =
                     JObj [(''dailyRV'', jnum blendedDailyRV),
                           (''weeklyRV'', jnum weeklyRV),
                           (''intradayRV'', jnum intradayRV),
                           (''jumps'', jumpParams),
                           (''regime'', regime_json regime),
                           (''timestamp'', jnum now_data)]
               in (\<lparr>data = Some calibrationData, timestamp = now_cache\<rparr>, calibrationData)
           | Inl error \<Rightarrow>
               let defaultData =
                     JObj [(''dailyRV'', jnum (sqrt (theta DEFAULT_HESTON_PARAMS))),
                           (''weeklyRV'', jnum (sqrt (theta DEFAULT_HESTON_PARAMS))),
                           (''intradayRV'', jnum (sqrt (theta DEFAULT_HESTON_PARAMS))),
                           (''jumps'', DEFAULT_JUMP_PARAMS),
                           (''regime'',
                              JObj [(''current'', JStr ''BULL''),
                                    (''probabilities'', JArr [jnum (5 / 10), jnum (5 / 10)])]),
                           (''timestamp'', jnum now_data)]
               in (cache, defaultData)))"

section \<open>Simulation inputs (\<^verbatim>\<open>lib/hooks/useSimulation.ts\<close>)\<close>

datatype jump_kind = merton | kou

text \<open>
  \<^verbatim>\<open>CalibrationData.jumps\<close> is \<^verbatim>\<open>{lambda, mu_j, sigma_j}\<close>; \<^verbatim>\<open>JumpParams\<close> has these fields
  and \<^verbatim>\<open>kind\<close>.
\<close>

record CalibrationJumps =
  lambda :: real
  mu_j :: real
  sigma_j :: real

record JumpParams = CalibrationJumps +
  kind :: jump_kind

record RegimeParams =
  mu :: real
  heston :: HestonParams

record HMM =
  p :: "(real \<times> real) \<times> (real \<times> real)"
  pi0 :: "real \<times> real"

text \<open>\<^verbatim>\<open>regimes: {BULL: RegimeParams; BEAR: RegimeParams}\<close> is indexed by the regime.\<close>

record SimInputs =
  s0 :: real
  t :: real
  dt :: real
  regimes :: "Regime \<Rightarrow> RegimeParams"
  hmm :: HMM
  jumps :: JumpParams

record CalibrationData =
  dailyRV :: real
  weeklyRV :: real
  intradayRV :: real
  jumps :: CalibrationJumps
  regime :: RegimeState
  timestamp :: real

record SensitivityParams =
  volatilityMultiplier :: real
  jumpIntensityMultiplier :: real
  jumpSizeMultiplier :: real

text \<open>
  Of \<^verbatim>\<open>KalshiMarket\<close> the code below reads \<^verbatim>\<open>ticker\<close> and \<^verbatim>\<open>close_time\<close>; \<open>close_time\<close> is
  the number of milliseconds \<^verbatim>\<open>new Date(market.close_time).getTime()\<close> gives.
\<close>

record KalshiMarket =
  ticker :: string
  close_time :: real

text \<open>
  \<^verbatim>\<open>prepareSimInputs(market, calibration, currentPrice, sensitivity?)\<close>; \<open>now\<close> is the
  reading of \<^verbatim>\<open>Date.now()\<close>. An absent \<^verbatim>\<open>sensitivity\<close> is \<open>None\<close>, and
  \<^verbatim>\<open>sensitivity?.volatilityMultiplier\<close> is then \<^verbatim>\<open>undefined\<close>.
\<close>

definition prepareSimInputs ::
  "KalshiMarket \<Rightarrow> CalibrationData \<Rightarrow> real \<Rightarrow> SensitivityParams option \<Rightarrow> real \<Rightarrow> SimInputs" where
  "prepareSimInputs market calibration currentPrice sensitivity now =
     (let timeToClose = (close_time market - now) / 1000 / 3600;
          volMultiplier = js_or (map_option volatilityMultiplier sensitivity) 1;
          jumpIntensityMultiplier = js_or (map_option jumpIntensityMultiplier sensitivity) 1;
          jumpSizeMultiplier = js_or (map_option jumpSizeMultiplier sensitivity) 1;
          theta = (dailyRV calibration * volMultiplier)\<^sup>2;
          xi = 3 / 10
      in \<lparr>s0 = currentPrice,
          t = max (1 / 100) timeToClose,
          dt = 1 / 60,
          regimes = (\<lambda>r. case r of
              BULL \<Rightarrow>
                \<lparr>mu = 5 / 100 / 365 / 24,
                 heston = \<lparr>kappa = 2, theta = theta, xi = xi, rho = - (5 / 10)\<rparr>\<rparr>
            | BEAR \<Rightarrow>
                \<lparr>mu = - (5 / 100) / 365 / 24,
                 heston = \<lparr>kappa = 3, theta = theta * (12 / 10), xi = xi * (11 / 10),
                           rho = - (7 / 10)\<rparr>\<rparr>),
          hmm = \<lparr>p = ((95 / 100, 5 / 100), (10 / 100, 90 / 100)),
                 pi0 = probabilities (regime calibration)\<rparr>,
          jumps = \<lparr>lambda = lambda (CalibrationData.jumps calibration) * jumpIntensityMultiplier,
                   mu_j = mu_j (CalibrationData.jumps calibration),
                   sigma_j = sigma_j (CalibrationData.jumps calibration) * jumpSizeMultiplier,
                   kind = merton\<rparr>\<rparr>)"

section \<open>Result cache (\<^verbatim>\<open>lib/cache/simCache.ts\<close>)\<close>

record CacheKey =
  marketTicker :: string
  s0 :: real
  timeToClose :: real
  sensitivity :: SensitivityParams

record 'r CacheEntry =
  result :: 'r
  timestamp :: real

text \<open>
  \<^verbatim>\<open>generateKey\<close> passes an object literal to \<^verbatim>\<open>JSON.stringify\<close>. With the keys in a fixed
  order the text is determined by, and determines, the values of the six fields, so the
  fingerprint is that object. \<^verbatim>\<open>Math.round\<close> is exact on a double; the product
  \<^verbatim>\<open>timeToClose * 10\<close> and the quotient by \<open>10\<close> round, which decides the integer that
  \<^verbatim>\<open>Math.round\<close> gives, so they are modelled in the arithmetic of the engine.
\<close>

definition generateKey :: "CacheKey \<Rightarrow> jsval" where
  "generateKey key =
     JObj [(''ticker'', JStr (marketTicker key)),
           (''s0'', jnum (of_int (js_round (CacheKey.s0 key)))),
           (''t'', jnum (f64_div (of_int (js_round (f64_mul (timeToClose key) 10))) 10)),
           (''vol'', jnum (volatilityMultiplier (sensitivity key))),
           (''jump'', jnum (jumpIntensityMultiplier (sensitivity key))),
           (''size'', jnum (jumpSizeMultiplier (sensitivity key)))]"

text \<open>
  The field \<^verbatim>\<open>cache\<close> is a JavaScript \<^verbatim>\<open>Map\<close>: its entries in insertion order, each key
  once. \<^verbatim>\<open>Map.set\<close> on a present key replaces the value where it stands, on an absent
  key appends; \<^verbatim>\<open>keys().next().value\<close> is the first key, \<^verbatim>\<open>undefined\<close> on the empty map,
  which \<^verbatim>\<open>delete\<close> ignores.
\<close>

type_synonym 'r Map = "(jsval \<times> 'r CacheEntry) list"










definition SimulationCache_stats :: "'r Map \<Rightarrow> nat \<times> real" where
  "SimulationCache_stats cache = (length cache, 0)"




section \<open>The Wilson interval as the specification words it\<close>

text \<open>
  Section 4.7 of the specification: \<open>p = h / n\<close>,
  \<open>center = (p + z\<^sup>2 / (2 n)) / (1 + z\<^sup>2 / n)\<close>,
  \<open>margin = (z sqrt (p (1 - p) / n + z\<^sup>2 / (4 n\<^sup>2))) / (1 + z\<^sup>2 / n)\<close>, endpoints
  clipped to \<open>[0, 1]\<close>.
\<close>

definition wilson_phat :: "real \<Rightarrow> real \<Rightarrow> real" where
  "wilson_phat h n = h / n"

definition wilson_center :: "real \<Rightarrow> real \<Rightarrow> real \<Rightarrow> real" where
  "wilson_center z h n = (wilson_phat h n + z\<^sup>2 / (2 * n)) / (1 + z\<^sup>2 / n)"

definition wilson_margin :: "real \<Rightarrow> real \<Rightarrow> real \<Rightarrow> real" where
  "wilson_margin z h n =
     (z * sqrt (wilson_phat h n * (1 - wilson_phat h n) / n + z\<^sup>2 / (4 * n\<^sup>2))) / (1 + z\<^sup>2 / n)"

definition wilson_score_interval :: "real \<Rightarrow> real \<Rightarrow> real \<Rightarrow> real \<times> real" where
  "wilson_score_interval z h n =
     (max 0 (wilson_center z h n - wilson_margin z h n),
      min 1 (wilson_center z h n + wilson_margin z h n))"

section \<open>Calibration as the specification words it\<close>

text \<open>"Clamped to \<open>[lo, hi]\<close>".\<close>

definition clamp :: "real \<Rightarrow> real \<Rightarrow> real \<Rightarrow> real" where
  "clamp lo hi x = (if x < lo then lo else if hi < x then hi else x)"

text \<open>
  Section 4.6, Heston calibration from the three realized volatilities:
  \<open>theta = 0.7 dailyRV\<^sup>2 + 0.3 weeklyRV\<^sup>2\<close> clamped to \<open>[1e-4, 0.25]\<close>; \<open>kappa = 3.0\<close> if
  \<open>|intradayRV - dailyRV| > 0.01\<close> else \<open>2.0\<close>, clamped to \<open>[0.5, 5]\<close>;
  \<open>xi = |intradayRV - dailyRV| / dailyRV\<close> clamped to \<open>[0.1, 1]\<close>; \<open>rho = -0.5\<close>.
\<close>

definition heston_calibration_spec :: "real \<Rightarrow> real \<Rightarrow> real \<Rightarrow> HestonParams" where
  "heston_calibration_spec d w i =
     \<lparr>kappa = clamp (5 / 10) 5 (if \<bar>i - d\<bar> > 1 / 100 then 3 else 2),
      theta = clamp (1 / 10000) (25 / 100) (7 / 10 * d\<^sup>2 + 3 / 10 * w\<^sup>2),
      xi = clamp (1 / 10) 1 (\<bar>i - d\<bar> / d),
      rho = - (5 / 10)\<rparr>"

text \<open>Mean and realized volatility (the sample standard deviation) of a window.\<close>

definition mean :: "real list \<Rightarrow> real" where
  "mean xs = sum_list xs / real (length xs)"

definition sample_stddev :: "real list \<Rightarrow> real" where
  "sample_stddev xs = sqrt ((\<Sum>x\<leftarrow>xs. (x - mean xs)\<^sup>2) / (real (length xs) - 1))"

text \<open>
  Section 4.6, regime classifier: over the last 20 returns with mean \<open>m\<close> and realized
  volatility \<open>\<sigma>\<close>, \<open>bullScore = (m > 0 ? 0.6 : 0.4) + (\<sigma> < 0.02 ? 0.2 : 0)\<close>.
\<close>

definition bull_score :: "real list \<Rightarrow> real" where
  "bull_score rs =
     (let window = drop (length rs - 20) rs; m = mean window; \<sigma> = sample_stddev window
      in (if m > 0 then 6 / 10 else 4 / 10) + (if \<sigma> < 2 / 100 then 2 / 10 else 0))"

text \<open>
  The classifier of Section 4.6 in full: \<open>{BULL, [0.5, 0.5]}\<close> for fewer than 10 returns, else
  \<open>bearScore = 1 - bullScore\<close>, the regime with the larger score, and both scores.
\<close>

definition regime_classifier_spec :: "real list \<Rightarrow> RegimeState" where
  "regime_classifier_spec rs =
     (if length rs < 10 then \<lparr>current = BULL, probabilities = (5 / 10, 5 / 10)\<rparr>
      else \<lparr>current = (if bull_score rs > 1 - bull_score rs then BULL else BEAR),
            probabilities = (bull_score rs, 1 - bull_score rs)\<rparr>)"

section \<open>Auxiliary definitions for the statements\<close>


text \<open>Fifty keys with different spot prices, and a cache that holds an entry for each.\<close>

definition example_key :: "nat \<Rightarrow> CacheKey" where
  "example_key i =
     \<lparr>marketTicker = ''KXBTCD'', s0 = 60000 + real i, timeToClose = 1,
      sensitivity = \<lparr>volatilityMultiplier = 1, jumpIntensityMultiplier = 1,
                      jumpSizeMultiplier = 1\<rparr>\<rparr>"


text \<open>Sixteen minute returns of which exactly one is an outlier.\<close>

definition one_jump_returns :: "real list" where
  "one_jump_returns = [16 / 10000, 0, 0, 0, 0, 0, 0, 0, 0, 0, 0, 0, 0, 0, 0, 0]"

text \<open>
  Ten minute returns that cancel: the doubles nearest to \<open>0.01\<close>, \<open>0.05\<close>, \<open>-0.05\<close> and
  \<open>-0.01\<close>, then six flat minutes.
\<close>

definition cancelling_returns :: "real list" where
  "cancelling_returns =
     [5764607523034235 / 2 ^ 59, 3602879701896397 / 2 ^ 56, - (3602879701896397 / 2 ^ 56),
      - (5764607523034235 / 2 ^ 59), 0, 0, 0, 0, 0, 0]"

section \<open>Auxiliary lemmas\<close>

lemma foldl_add_sum_list:
  fixes f :: "real \<Rightarrow> real"
  shows "foldl (\<lambda>sum r. sum + f r) a xs = a + sum_list (map f xs)"
  by (induction xs arbitrary: a) simp_all

lemma foldl_plus_mean: "foldl (\<lambda>sum r. sum + r) 0 xs / real (length xs) = mean xs"
  using foldl_add_sum_list [of "\<lambda>r. r" 0 xs] by (simp add: mean_def)

lemma realizedVolatility_sample_stddev:
  "2 \<le> length xs \<Longrightarrow> realizedVolatility xs = sample_stddev xs"
  using foldl_add_sum_list [of "\<lambda>r. (r - mean xs)\<^sup>2" 0 xs]
  by (simp add: realizedVolatility_def sample_stddev_def Let_def foldl_plus_mean)

lemma f64_zero: "f64 0 = 0"
  by (simp add: f64_def)

lemma f64_eqI:
  fixes x :: real and m :: int and K :: nat
  assumes lo: "2 ^ 52 \<le> \<bar>x\<bar> * 2 ^ K" and hi: "\<bar>x\<bar> * 2 ^ K < 2 ^ 53"
    and near: "\<bar>x * 2 ^ K - of_int m\<bar> < 1 / 2"
  shows "f64 x = of_int m / 2 ^ K"
proof -
  have x0: "x \<noteq> 0" using lo by auto
  have p1: "(2 :: real) powr (of_int (52 - int K)) = 2 ^ 52 / 2 ^ K"
    by (simp add: powr_diff powr_realpow)
  have p2: "(2 :: real) powr (of_int (52 - int K) + 1) = 2 ^ 53 / 2 ^ K"
    by (simp add: powr_diff powr_add powr_realpow)
  have "2 powr (of_int (52 - int K)) \<le> \<bar>x\<bar>" "\<bar>x\<bar> < 2 powr (of_int (52 - int K) + 1)"
    unfolding p1 p2 using lo hi by (simp_all add: field_simps)
  then have e: "\<lfloor>log 2 \<bar>x\<bar>\<rfloor> = 52 - int K"
    using x0 by (subst floor_log_eq_powr_iff) simp_all
  have ulp: "(2 :: real) powr (of_int (52 - int K) - 52) = 1 / 2 ^ K"
    by (simp add: powr_minus powr_realpow field_simps)
  define q where "q = x * 2 ^ K"
  have q: "x / (1 / 2 ^ K) = q" by (simp add: q_def)
  have nearq: "\<bar>q - of_int m\<bar> < 1 / 2" using near by (simp add: q_def)
  have pick: "(let f = \<lfloor>q\<rfloor>; r = q - of_int f
        in (if r < 1 / 2 then f else if 1 / 2 < r then f + 1
            else if even f then f else f + 1)) = m"
  proof (cases "of_int m \<le> q")
    case True
    then have "\<lfloor>q\<rfloor> = m" using nearq by (intro floor_unique) linarith+
    then show ?thesis using nearq True by (simp add: Let_def)
  next
    case False
    then have "\<lfloor>q\<rfloor> = m - 1" using nearq by (intro floor_unique) (simp, linarith)+
    then show ?thesis using nearq False by (simp add: Let_def)
  qed
  show ?thesis
    using x0 pick unfolding f64_def e ulp q Let_def by simp
qed

lemma f64_tie_eqI:
  fixes x :: real and m :: int and K :: nat
  assumes lo: "2 ^ 52 \<le> \<bar>x\<bar> * 2 ^ K" and hi: "\<bar>x\<bar> * 2 ^ K < 2 ^ 53"
    and tie: "\<bar>x * 2 ^ K - of_int m\<bar> = 1 / 2" and ev: "even m"
  shows "f64 x = of_int m / 2 ^ K"
proof -
  have x0: "x \<noteq> 0" using lo by auto
  have p1: "(2 :: real) powr (of_int (52 - int K)) = 2 ^ 52 / 2 ^ K"
    by (simp add: powr_diff powr_realpow)
  have p2: "(2 :: real) powr (of_int (52 - int K) + 1) = 2 ^ 53 / 2 ^ K"
    by (simp add: powr_diff powr_add powr_realpow)
  have "2 powr (of_int (52 - int K)) \<le> \<bar>x\<bar>" "\<bar>x\<bar> < 2 powr (of_int (52 - int K) + 1)"
    unfolding p1 p2 using lo hi by (simp_all add: field_simps)
  then have e: "\<lfloor>log 2 \<bar>x\<bar>\<rfloor> = 52 - int K"
    using x0 by (subst floor_log_eq_powr_iff) simp_all
  have ulp: "(2 :: real) powr (of_int (52 - int K) - 52) = 1 / 2 ^ K"
    by (simp add: powr_minus powr_realpow field_simps)
  define q where "q = x * 2 ^ K"
  have q: "x / (1 / 2 ^ K) = q" by (simp add: q_def)
  have tieq: "\<bar>q - of_int m\<bar> = 1 / 2" using tie by (simp add: q_def)
  have pick: "(let f = \<lfloor>q\<rfloor>; r = q - of_int f
        in (if r < 1 / 2 then f else if 1 / 2 < r then f + 1
            else if even f then f else f + 1)) = m"
  proof (cases "of_int m \<le> q")
    case True
    then have qm: "q = of_int m + 1 / 2" using tieq by linarith
    then have "\<lfloor>q\<rfloor> = m" by (intro floor_unique) simp_all
    then show ?thesis using qm ev by (simp add: Let_def)
  next
    case False
    then have qm: "q = of_int m - 1 / 2" using tieq by linarith
    then have "\<lfloor>q\<rfloor> = m - 1" by (intro floor_unique) simp_all
    then show ?thesis using qm ev by (simp add: Let_def)
  qed
  show ?thesis
    using x0 pick unfolding f64_def e ulp q Let_def by simp
qed

lemma f64_sqrt_eqI:
  fixes y :: real and m :: int and K :: nat
  assumes y: "0 \<le> y" and m1: "2 ^ 52 < m" and m2: "m < 2 ^ 53"
    and lo: "(of_int m - 1 / 2)\<^sup>2 < y * 4 ^ K" and hi: "y * 4 ^ K < (of_int m + 1 / 2)\<^sup>2"
  shows "f64 (sqrt y) = of_int m / 2 ^ K"
proof -
  have s: "sqrt y * 2 ^ K = sqrt (y * 4 ^ K)"
  proof -
    have "(4 :: real) ^ K = (2 ^ K)\<^sup>2"
      by (simp add: power2_eq_square power_mult_distrib [symmetric])
    then show ?thesis by (simp add: real_sqrt_mult)
  qed
  have mpos: "0 < (of_int m :: real) - 1 / 2"
    using m1 by simp
  have a: "of_int m - 1 / 2 < sqrt (y * 4 ^ K)"
    using lo by (rule real_less_rsqrt)
  have b: "sqrt (y * 4 ^ K) < of_int m + 1 / 2"
    using hi mpos by (intro real_less_lsqrt) simp_all
  have m1': "(2 :: real) ^ 52 + 1 \<le> of_int m"
  proof -
    have "(2 :: int) ^ 52 + 1 \<le> m" using m1 by simp
    then have "of_int ((2 :: int) ^ 52 + 1) \<le> (of_int m :: real)" by (simp only: of_int_le_iff)
    then show ?thesis by simp
  qed
  have m2': "(of_int m :: real) + 1 \<le> 2 ^ 53"
  proof -
    have "m + 1 \<le> (2 :: int) ^ 53" using m2 by simp
    then have "(of_int (m + 1) :: real) \<le> of_int ((2 :: int) ^ 53)" by (simp only: of_int_le_iff)
    then show ?thesis by simp
  qed
  have nn: "0 \<le> sqrt y" using y by simp
  show ?thesis
  proof (rule f64_eqI)
    show "2 ^ 52 \<le> \<bar>sqrt y\<bar> * 2 ^ K"
      using a m1' nn s by simp
    show "\<bar>sqrt y\<bar> * 2 ^ K < 2 ^ 53"
      using b m2' nn s by simp
    show "\<bar>sqrt y * 2 ^ K - of_int m\<bar> < 1 / 2"
      unfolding s using a b by linarith
  qed
qed

text \<open>Rounding to a double moves a number by at most \<open>2\<^sup>-\<^sup>5\<^sup>3\<close> of its size.\<close>

lemma f64_error: "\<bar>f64 x - x\<bar> \<le> \<bar>x\<bar> / 2 ^ 53"
proof (cases "x = 0")
  case True
  then show ?thesis by (simp add: f64_def)
next
  case False
  define e where "e = \<lfloor>log 2 \<bar>x\<bar>\<rfloor>"
  define ulp :: real where "ulp = 2 powr (of_int e - 52)"
  define q where "q = x / ulp"
  define m where "m = (if q - of_int \<lfloor>q\<rfloor> < 1 / 2 then \<lfloor>q\<rfloor>
      else if 1 / 2 < q - of_int \<lfloor>q\<rfloor> then \<lfloor>q\<rfloor> + 1
      else if even \<lfloor>q\<rfloor> then \<lfloor>q\<rfloor> else \<lfloor>q\<rfloor> + 1)"
  have ulp_pos: "0 < ulp" by (simp add: ulp_def)
  have fx: "f64 x = of_int m * ulp"
    using False by (simp add: f64_def Let_def e_def ulp_def q_def m_def)
  have near: "\<bar>of_int m - q\<bar> \<le> 1 / 2"
    unfolding m_def by (auto; linarith)
  have "f64 x - x = (of_int m - q) * ulp"
    using ulp_pos by (simp add: fx q_def algebra_simps)
  then have "\<bar>f64 x - x\<bar> = \<bar>of_int m - q\<bar> * ulp"
    using ulp_pos by (simp add: abs_mult)
  also have "\<dots> \<le> 1 / 2 * ulp"
    using near ulp_pos by (intro mult_right_mono) simp_all
  finally have err: "\<bar>f64 x - x\<bar> \<le> ulp / 2"
    by simp
  have "2 powr (of_int e) \<le> 2 powr (log 2 \<bar>x\<bar>)"
    unfolding e_def by (intro powr_mono) simp_all
  then have "2 powr (of_int e) \<le> \<bar>x\<bar>"
    using False by simp
  moreover have "ulp = 2 powr (of_int e) / 2 ^ 52"
    by (simp add: ulp_def powr_diff powr_realpow)
  ultimately have "ulp \<le> \<bar>x\<bar> / 2 ^ 52"
    by (simp add: divide_right_mono)
  then show ?thesis
    using err by simp
qed

section \<open>Pricer and confidence interval\<close>

lemma wilsonCI_unfold:
  "n \<noteq> 0 \<Longrightarrow>
   wilsonCI h n c =
     wilson_score_interval (if c = 95 / 100 then 196 / 100 else 2576 / 1000) h n"
  by (simp add: wilsonCI_def wilson_score_interval_def wilson_center_def wilson_margin_def
      wilson_phat_def Let_def power2_eq_square)

text \<open>
  C1. For \<open>0 \<le> h \<le> n\<close> and \<open>n \<ge> 1\<close>, \<open>wilsonCI h n 0.95\<close> is the Wilson score interval
  with \<open>z = 1.96\<close> as the specification words it (center, margin, clipping to \<open>[0, 1]\<close>),
  at confidence 0.99 it is the same with \<open>z = 2.576\<close>, and for \<open>n = 0\<close> the result is
  \<open>[0, 1]\<close>. This is an identity of formulas: the source applies the operations of the
  specification's formulas in the same order.
\<close>

theorem wilsonCI_is_wilson_score_interval:
  "(0 \<le> h \<and> h \<le> n \<and> 1 \<le> n \<longrightarrow>
      wilsonCI h n (95 / 100) = wilson_score_interval (196 / 100) h n \<and>
      wilsonCI h n (99 / 100) = wilson_score_interval (2576 / 1000) h n) \<and>
   wilsonCI h 0 c = (0, 1)"
proof -
  have "wilsonCI h 0 c = (0, 1)"
    by (simp add: wilsonCI_def)
  moreover have "wilsonCI h n (95 / 100) = wilson_score_interval (196 / 100) h n"
    if "1 \<le> n"
    using that wilsonCI_unfold [of n h "95 / 100"] by simp
  moreover have "wilsonCI h n (99 / 100) = wilson_score_interval (2576 / 1000) h n"
    if "1 \<le> n"
    using that wilsonCI_unfold [of n h "99 / 100"] by simp
  ultimately show ?thesis by blast
qed

theorem wilsonCI_is_wilson_score_interval_witness:
  "(0 \<le> (3::real) \<and> (3::real) \<le> 10 \<and> (1::real) \<le> 10) \<and>
   wilsonCI 3 10 (95 / 100) = wilson_score_interval (196 / 100) 3 10 \<and>
   wilsonCI 3 10 (99 / 100) = wilson_score_interval (2576 / 1000) 3 10 \<and>
   wilsonCI 3 0 (95 / 100) = (0, 1)"
  using wilsonCI_is_wilson_score_interval [of 3 10 "95 / 100"] by simp

lemma wilson_abs_le:
  fixes z n p :: real
  assumes z: "0 < z" and n: "1 \<le> n" and p0: "0 \<le> p" and p1: "p \<le> 1"
  shows "\<bar>z\<^sup>2 / (2 * n) - p * (z\<^sup>2 / n)\<bar> \<le> z * sqrt (p * (1 - p) / n + z\<^sup>2 / (4 * n\<^sup>2))"
proof -
  let ?a = "z * (1 - 2 * p) / (2 * n)"
  let ?S = "p * (1 - p) / n + z\<^sup>2 / (4 * n\<^sup>2)"
  have npos: "0 < n" using n by simp
  have pq: "0 \<le> p * (1 - p)" using p0 p1 by simp
  have "?S - ?a\<^sup>2 = p * (1 - p) / n + p * (1 - p) * z\<^sup>2 / n\<^sup>2"
    using npos by (simp add: power2_eq_square field_simps)
  moreover have "0 \<le> p * (1 - p) / n + p * (1 - p) * z\<^sup>2 / n\<^sup>2"
  proof -
    have "0 \<le> p * (1 - p) / n" using pq npos by simp
    moreover have "0 \<le> p * (1 - p) * z\<^sup>2 / n\<^sup>2" using pq by simp
    ultimately show ?thesis by simp
  qed
  ultimately have "?a\<^sup>2 \<le> ?S" by simp
  then have "sqrt (?a\<^sup>2) \<le> sqrt ?S"
    by (rule real_sqrt_le_mono)
  then have "\<bar>?a\<bar> \<le> sqrt ?S"
    by (simp only: real_sqrt_abs)
  then have "z * \<bar>?a\<bar> \<le> z * sqrt ?S"
    by (rule mult_left_mono) (simp add: z less_imp_le)
  moreover have "z * \<bar>?a\<bar> = \<bar>z\<^sup>2 / (2 * n) - p * (z\<^sup>2 / n)\<bar>"
  proof -
    have "z * ?a = z\<^sup>2 / (2 * n) - p * (z\<^sup>2 / n)"
      using npos by (simp add: power2_eq_square field_simps)
    then have "\<bar>z * ?a\<bar> = \<bar>z\<^sup>2 / (2 * n) - p * (z\<^sup>2 / n)\<bar>" by simp
    then show ?thesis using z by (simp add: abs_mult)
  qed
  ultimately show ?thesis by simp
qed

lemma wilson_enclose:
  fixes z n h :: real
  assumes z: "0 < z" and n: "1 \<le> n" and h0: "0 \<le> h" and h1: "h \<le> n"
  shows "wilson_center z h n - wilson_margin z h n \<le> h / n"
    and "h / n \<le> wilson_center z h n + wilson_margin z h n"
proof -
  define p where "p = h / n"
  define d where "d = 1 + z\<^sup>2 / n"
  have npos: "0 < n" using n by simp
  have p0: "0 \<le> p" and p1: "p \<le> 1" using h0 h1 npos by (simp_all add: p_def)
  have dpos: "0 < d" using npos by (simp add: d_def add_pos_nonneg)
  have ab: "\<bar>z\<^sup>2 / (2 * n) - p * (z\<^sup>2 / n)\<bar> \<le> z * sqrt (p * (1 - p) / n + z\<^sup>2 / (4 * n\<^sup>2))"
    using wilson_abs_le [OF z n p0 p1] .
  have c: "wilson_center z h n - p = (z\<^sup>2 / (2 * n) - p * (z\<^sup>2 / n)) / d"
  proof -
    have "wilson_center z h n = (p + z\<^sup>2 / (2 * n)) / d"
      by (simp add: wilson_center_def wilson_phat_def p_def d_def)
    moreover have "p = (p + p * (z\<^sup>2 / n)) / d"
      using dpos by (simp add: d_def field_simps)
    ultimately have "wilson_center z h n - p = (p + z\<^sup>2 / (2 * n)) / d - (p + p * (z\<^sup>2 / n)) / d"
      by simp
    also have "\<dots> = (z\<^sup>2 / (2 * n) - p * (z\<^sup>2 / n)) / d"
      by (simp add: diff_divide_distrib [symmetric])
    finally show ?thesis .
  qed
  have m: "wilson_margin z h n = (z * sqrt (p * (1 - p) / n + z\<^sup>2 / (4 * n\<^sup>2))) / d"
    by (simp add: wilson_margin_def wilson_phat_def p_def d_def)
  have "\<bar>wilson_center z h n - p\<bar> \<le> wilson_margin z h n"
    unfolding c m using ab dpos by (simp add: divide_right_mono)
  then show "wilson_center z h n - wilson_margin z h n \<le> h / n"
    and "h / n \<le> wilson_center z h n + wilson_margin z h n"
    unfolding p_def by linarith+
qed

text \<open>
  In the arithmetic of the engine \<open>wilsonCI(10000, 10000)\<close> is
  \<open>[0.9996159875222334, 0.9999999999999999]\<close>: the operations are rounded one by one, each
  result given as an integer over a power of two.
\<close>

lemma wilsonCI_f64_all_hits:
  "wilsonCI_f64 10000 10000 (f64 (95 / 100)) = (9003740377837441 / 2 ^ 53, 9007199254740991 / 2 ^ 53)"
proof -
  define Z :: real where "Z = 8827055269646172 / 2 ^ 52"
  define ZSQ :: real where "ZSQ = 8650514164253248 / 2 ^ 51"
  define A :: real where "A = 7086501203356261 / 2 ^ 64"
  define DEN :: real where "DEN = 4505329730203347 / 2 ^ 52"
  define C :: real where "C = 7086501203356261 / 2 ^ 65"
  define D :: real where "D = 4504464678786921 / 2 ^ 52"
  define CENTER :: real where "CENTER = 9005469816289216 / 2 ^ 53"
  define G :: real where "G = 5805261785789449 / 2 ^ 79"
  define SQ :: real where "SQ = 7231123676894144 / 2 ^ 66"
  define ZM :: real where "ZM = 7086501203356261 / 2 ^ 65"
  define MARGIN :: real where "MARGIN = 7083779898470464 / 2 ^ 65"
  define HI :: real where "HI = 9007199254740991 / 2 ^ 53"
  define LO :: real where "LO = 9003740377837441 / 2 ^ 53"
  have z: "f64 (196 / 100) = Z"
    using f64_eqI [of "196 / 100" 52 8827055269646172] by (simp add: Z_def)
  have p: "f64 (10000 / 10000) = 1"
    using f64_eqI [of "10000 / 10000" 52 "1 * 2 ^ 52"] by simp
  have zsq: "f64 (Z * Z) = ZSQ"
    using f64_eqI [of "Z * Z" 51 8650514164253248] by (simp add: Z_def ZSQ_def)
  have a: "f64 (ZSQ / 10000) = A"
    using f64_eqI [of "ZSQ / 10000" 64 7086501203356261] by (simp add: ZSQ_def A_def)
  have den: "f64 (1 + A) = DEN"
    using f64_eqI [of "1 + A" 52 4505329730203347] by (simp add: A_def DEN_def)
  have b: "f64 (2 * 10000) = 20000"
    using f64_eqI [of "2 * 10000" 38 "20000 * 2 ^ 38"] by simp
  have c: "f64 (ZSQ / 20000) = C"
    using f64_eqI [of "ZSQ / 20000" 65 7086501203356261] by (simp add: ZSQ_def C_def)
  have d: "f64 (1 + C) = D"
    using f64_eqI [of "1 + C" 52 4504464678786921] by (simp add: C_def D_def)
  have center: "f64 (D / DEN) = CENTER"
    using f64_eqI [of "D / DEN" 53 9005469816289216] by (simp add: D_def DEN_def CENTER_def)
  have e1: "f64 (1 - 1) = 0" "f64 (1 * 0) = 0" "f64 (0 / 10000) = 0"
    by (simp_all add: f64_zero)
  have f1: "f64 (4 * 10000) = 40000"
    using f64_eqI [of "4 * 10000" 37 "40000 * 2 ^ 37"] by simp
  have f2: "f64 (40000 * 10000) = 400000000"
    using f64_eqI [of "40000 * 10000" 24 "400000000 * 2 ^ 24"] by simp
  have g: "f64 (ZSQ / 400000000) = G"
    using f64_eqI [of "ZSQ / 400000000" 79 5805261785789449] by (simp add: ZSQ_def G_def)
  have h: "f64 (0 + G) = G"
    using f64_eqI [of "0 + G" 79 5805261785789449] by (simp add: G_def)
  have sq: "f64 (sqrt G) = SQ"
    using f64_sqrt_eqI [of G 7231123676894144 66] by (simp add: G_def SQ_def power2_eq_square)
  have zm: "f64 (Z * SQ) = ZM"
    using f64_eqI [of "Z * SQ" 65 7086501203356261] by (simp add: Z_def SQ_def ZM_def)
  have margin: "f64 (ZM / DEN) = MARGIN"
    using f64_eqI [of "ZM / DEN" 65 7083779898470464] by (simp add: ZM_def DEN_def MARGIN_def)
  have hi: "f64 (CENTER + MARGIN) = HI"
    using f64_eqI [of "CENTER + MARGIN" 53 9007199254740991] by (simp add: CENTER_def MARGIN_def HI_def)
  have lo: "f64 (CENTER - MARGIN) = LO"
    using f64_eqI [of "CENTER - MARGIN" 53 9003740377837441] by (simp add: CENTER_def MARGIN_def LO_def)
  have nz: "((10000 :: real) = 0) = False" by simp
  have "wilsonCI_f64 10000 10000 (f64 (95 / 100)) = (max 0 LO, min 1 HI)"
    unfolding wilsonCI_f64_def Let_def f64_add_def f64_sub_def f64_mul_def f64_div_def f64_sqrt_def
    by (simp only: nz if_False if_True refl z p zsq a den b c d center e1 f1 f2 g h sq zm margin hi lo)
  moreover have "max 0 LO = LO" "min 1 HI = HI"
    by (simp_all add: LO_def HI_def)
  ultimately show ?thesis
    by (simp add: LO_def HI_def)
qed

text \<open>
  The claim C2 as stated fails in double precision at the boundary \<open>h = n\<close>: when all of
  10000 paths hit, the point estimate is \<open>10000 / 10000 = 1\<close> and the upper end of the
  interval is \<open>1 - 2\<^sup>-\<^sup>5\<^sup>3\<close>, below it.
\<close>

theorem wilsonCI_f64_counterexample:
  "f64_div 10000 10000 = 1 \<and>
   snd (wilsonCI_f64 10000 10000 (f64 (95 / 100))) = 9007199254740991 / 2 ^ 53 \<and>
   snd (wilsonCI_f64 10000 10000 (f64 (95 / 100))) < f64_div 10000 10000"
proof -
  have "f64_div 10000 10000 = 1"
    using f64_eqI [of "10000 / 10000" 52 "2 ^ 52"] by (simp add: f64_div_def)
  then show ?thesis
    unfolding wilsonCI_f64_all_hits by simp
qed

text \<open>
  C2, amended. The interval that \<open>wilsonCI\<close> returns lies inside \<open>[0, 1]\<close>, also as computed
  in double precision; and for \<open>0 \<le> h \<le> n\<close>, \<open>n \<ge> 1\<close> the interval of the formulas in exact
  arithmetic encloses the point estimate: \<open>0 \<le> lo \<le> h / n \<le> hi \<le> 1\<close>, at any confidence.
\<close>

theorem wilsonCI_encloses_estimate:
  "(0 \<le> h \<and> h \<le> n \<and> 1 \<le> n \<longrightarrow>
      0 \<le> fst (wilsonCI h n c) \<and> fst (wilsonCI h n c) \<le> h / n \<and>
      h / n \<le> snd (wilsonCI h n c) \<and> snd (wilsonCI h n c) \<le> 1) \<and>
   0 \<le> fst (wilsonCI_f64 h n c) \<and> snd (wilsonCI_f64 h n c) \<le> 1"
proof -
  have exact: "0 \<le> fst (wilsonCI h n c) \<and> fst (wilsonCI h n c) \<le> h / n \<and>
      h / n \<le> snd (wilsonCI h n c) \<and> snd (wilsonCI h n c) \<le> 1"
    if a: "0 \<le> h \<and> h \<le> n \<and> 1 \<le> n"
  proof -
    define z :: real where "z = (if c = 95 / 100 then 196 / 100 else 2576 / 1000)"
    have z: "0 < z" by (simp add: z_def)
    have w: "wilsonCI h n c = wilson_score_interval z h n"
      using a wilsonCI_unfold [of n h c] by (simp add: z_def)
    have lo: "wilson_center z h n - wilson_margin z h n \<le> h / n"
      and hi: "h / n \<le> wilson_center z h n + wilson_margin z h n"
      using wilson_enclose [of z n h] z a by simp_all
    have "0 \<le> h / n" and "h / n \<le> 1"
      using a by simp_all
    then show ?thesis
      unfolding w wilson_score_interval_def using lo hi by simp
  qed
  have clipped: "0 \<le> fst (wilsonCI_f64 h n c) \<and> snd (wilsonCI_f64 h n c) \<le> 1"
    by (simp add: wilsonCI_f64_def Let_def)
  show ?thesis
    using exact clipped by blast
qed

theorem wilsonCI_encloses_estimate_witness:
  "(0 \<le> (3 :: real) \<and> (3 :: real) \<le> 10 \<and> (1 :: real) \<le> 10) \<and>
   0 \<le> fst (wilsonCI 3 10 (95 / 100)) \<and> fst (wilsonCI 3 10 (95 / 100)) \<le> 3 / 10 \<and>
   3 / 10 \<le> snd (wilsonCI 3 10 (95 / 100)) \<and> snd (wilsonCI 3 10 (95 / 100)) \<le> 1"
  using wilsonCI_encloses_estimate [of 3 10 "95 / 100"] by simp

text \<open>
  C10. YES/NO duality of the expected value: buying NO is the negation of selling YES,
  and selling NO is the negation of buying YES, at every probability and price.
\<close>

theorem calculateEV_duality:
  "calculateEV prob BUY_NO c = - calculateEV prob SELL_YES c \<and>
   calculateEV prob SELL_NO c = - calculateEV prob BUY_YES c"
  by simp

section \<open>Calibrator\<close>

text \<open>The doubles of the decimal literals of \<^verbatim>\<open>calibrateHestonParams\<close>.\<close>

lemma f64_hundredth: "f64 (1 / 100) = 5764607523034235 / 2 ^ 59"
  using f64_eqI [of "1 / 100" 59 5764607523034235] by simp

lemma f64_ten_thousandth: "f64 (1 / 10000) = 7378697629483821 / 2 ^ 66"
  using f64_eqI [of "1 / 10000" 66 7378697629483821] by simp

lemma f64_tenth: "f64 (1 / 10) = 3602879701896397 / 2 ^ 55"
  using f64_eqI [of "1 / 10" 56 7205759403792794] by simp

lemma f64_minus_nine_tenths: "f64 (- (9 / 10)) = - (8106479329266893 / 2 ^ 53)"
  using f64_eqI [of "- (9 / 10)" 53 "- 8106479329266893"] by simp

lemma f64_minus_tenth: "f64 (- (1 / 10)) = - (3602879701896397 / 2 ^ 55)"
  using f64_eqI [of "- (1 / 10)" 56 "- 7205759403792794"] by simp

text \<open>The bundle of \<^verbatim>\<open>calibrateHestonParams\<close>, with the clamps that do nothing removed.\<close>

lemma calibrateHestonParams_fields:
  "calibrateHestonParams d w i =
     \<lparr>kappa = (if \<bar>f64 (i - d)\<bar> > f64 (1 / 100) then 3 else 2),
      theta = clamp (f64 (1 / 10000)) (25 / 100)
                (f64 (f64 (f64 (f64 (7 / 10) * d) * d) + f64 (f64 (f64 (3 / 10) * w) * w))),
      xi = clamp (f64 (1 / 10)) (5 / 10) (f64 (\<bar>f64 (i - d)\<bar> / d)),
      rho = - (5 / 10)\<rparr>"
proof -
  define q where "q = f64 (\<bar>f64 (i - d)\<bar> / d)"
  define v where "v = f64 (f64 (f64 (f64 (7 / 10) * d) * d) + f64 (f64 (f64 (3 / 10) * w) * w))"
  define c where "c \<longleftrightarrow> \<bar>f64 (i - d)\<bar> > f64 (1 / 100)"
  have k: "max (5 / 10) (min 5 (if c then 3 else 2 :: real)) = (if c then 3 else 2)"
    by simp
  have th: "max (f64 (1 / 10000)) (min (25 / 100) v) = clamp (f64 (1 / 10000)) (25 / 100) v"
    unfolding f64_ten_thousandth by (simp add: clamp_def max_def min_def)
  have x: "max (f64 (1 / 10)) (min 1 (min (5 / 10) q)) = clamp (f64 (1 / 10)) (5 / 10) q"
    unfolding f64_tenth by (simp add: clamp_def max_def min_def)
  have r: "max (f64 (- (9 / 10))) (min (f64 (- (1 / 10))) (- (5 / 10))) = (- (5 / 10) :: real)"
    unfolding f64_minus_nine_tenths f64_minus_tenth by simp
  show ?thesis
    unfolding calibrateHestonParams_def Let_def f64_add_def f64_sub_def f64_mul_def f64_div_def
      q_def [symmetric] v_def [symmetric] c_def [symmetric]
    by (simp only: k th x r)
qed

text \<open>
  The comparison that decides \<open>kappa\<close> is made on the computed difference: from the doubles
  nearest to \<open>0.04\<close> and \<open>0.05\<close> the subtraction gives \<open>0.010000000000000002\<close>, which
  exceeds the double \<open>0.01\<close>.
\<close>

lemma calibrateHestonParams_kappa_rounding:
  "kappa (calibrateHestonParams (5764607523034235 / 2 ^ 57) w (3602879701896397 / 2 ^ 56)) = 3"
proof -
  have "f64 (3602879701896397 / 2 ^ 56 - 5764607523034235 / 2 ^ 57) = 1441151880758559 / 2 ^ 57"
    using f64_eqI [of "3602879701896397 / 2 ^ 56 - 5764607523034235 / 2 ^ 57" 59 5764607523034236]
    by simp
  then show ?thesis
    unfolding calibrateHestonParams_fields f64_hundredth by simp
qed

text \<open>
  The claim C3 as the specification words it, with \<open>xi\<close> clamped to \<open>[0.1, 1]\<close>, fails: at
  \<open>dailyRV = 1/64\<close> and \<open>weeklyRV = intradayRV = 1/32\<close>, all three of them doubles, the
  ratio \<open>|intradayRV - dailyRV| / dailyRV\<close> is exactly \<open>1\<close>, and the source first caps it
  with \<^verbatim>\<open>Math.min(0.5, ...)\<close>, so \<open>xi = 0.5\<close> where the specification has \<open>xi = 1\<close>.
\<close>

theorem calibrateHestonParams_xi_counterexample:
  "xi (calibrateHestonParams (1 / 64) (1 / 32) (1 / 32)) = 1 / 2 \<and>
   xi (heston_calibration_spec (1 / 64) (1 / 32) (1 / 32)) = 1"
proof -
  have a: "f64 (1 / 32 - 1 / 64) = 1 / 64"
    using f64_eqI [of "1 / 32 - 1 / 64" 58 "2 ^ 52"] by simp
  have b: "f64 (\<bar>1 / 64\<bar> / (1 / 64)) = 1"
    using f64_eqI [of "\<bar>1 / 64\<bar> / (1 / 64)" 52 "2 ^ 52"] by simp
  have "xi (calibrateHestonParams (1 / 64) (1 / 32) (1 / 32)) = 1 / 2"
    unfolding calibrateHestonParams_fields a b f64_tenth by (simp add: clamp_def)
  moreover have "xi (heston_calibration_spec (1 / 64) (1 / 32) (1 / 32)) = 1"
    by (simp add: heston_calibration_spec_def clamp_def)
  ultimately show ?thesis by simp
qed

text \<open>
  C3, amended. For \<open>dailyRV > 0\<close> and non-negative \<open>weeklyRV\<close>, \<open>intradayRV\<close>,
  \<^verbatim>\<open>calibrateHestonParams\<close> returns, with every operation rounded to a double:
  \<open>theta = 0.7 dailyRV dailyRV + 0.3 weeklyRV weeklyRV\<close> clamped to \<open>[1e-4, 0.25]\<close>;
  \<open>kappa = 3\<close> if the computed \<open>|intradayRV - dailyRV|\<close> exceeds the double \<open>0.01\<close>, else \<open>2\<close>
  (the clamp to \<open>[0.5, 5]\<close> changes neither); \<open>xi\<close> the computed
  \<open>|intradayRV - dailyRV| / dailyRV\<close> clamped to \<open>[0.1, 0.5]\<close>; and \<open>rho = -0.5\<close> (the clamp to
  \<open>[-0.9, -0.1]\<close> leaves it). The witness takes the doubles nearest to \<open>0.002\<close> and \<open>0.012\<close>,
  whose computed difference is the double \<open>0.01\<close> itself: \<open>kappa = 2\<close>.
\<close>

theorem calibrateHestonParams_values:
  "0 < d \<and> 0 \<le> w \<and> 0 \<le> i \<longrightarrow>
   calibrateHestonParams d w i =
     \<lparr>kappa = (if \<bar>f64 (i - d)\<bar> > f64 (1 / 100) then 3 else 2),
      theta = clamp (f64 (1 / 10000)) (25 / 100)
                (f64 (f64 (f64 (f64 (7 / 10) * d) * d) + f64 (f64 (f64 (3 / 10) * w) * w))),
      xi = clamp (f64 (1 / 10)) (5 / 10) (f64 (\<bar>f64 (i - d)\<bar> / d)),
      rho = - (5 / 10)\<rparr>"
  using calibrateHestonParams_fields [of d w i] by simp

theorem calibrateHestonParams_values_witness:
  "(0 < (1152921504606847 / 2 ^ 59 :: real) \<and> 0 \<le> (1 / 32 :: real) \<and>
    0 \<le> (3458764513820541 / 2 ^ 58 :: real)) \<and>
   kappa (calibrateHestonParams (1152921504606847 / 2 ^ 59) (1 / 32) (3458764513820541 / 2 ^ 58)) = 2 \<and>
   xi (calibrateHestonParams (1152921504606847 / 2 ^ 59) (1 / 32) (3458764513820541 / 2 ^ 58)) = 1 / 2 \<and>
   rho (calibrateHestonParams (1152921504606847 / 2 ^ 59) (1 / 32) (3458764513820541 / 2 ^ 58)) = - (1 / 2)"
proof -
  define D :: real where "D = 1152921504606847 / 2 ^ 59"
  define I :: real where "I = 3458764513820541 / 2 ^ 58"
  define V :: real where "V = 5764607523034235 / 2 ^ 59"
  have r0: "f64 (1 / 100) = V"
    using f64_eqI [of "1 / 100" 59 5764607523034235] by (simp add: V_def)
  have r1: "f64 (I - D) = V"
    using f64_eqI [of "I - D" 59 5764607523034235] by (simp add: D_def I_def V_def)
  have r2: "f64 (\<bar>V\<bar> / D) = 5"
    using f64_eqI [of "\<bar>V\<bar> / D" 50 5629499534213120] by (simp add: D_def V_def)
  have pos: "0 < D \<and> 0 \<le> (1 / 32 :: real) \<and> 0 \<le> I"
    by (simp add: D_def I_def)
  have eq: "calibrateHestonParams D (1 / 32) I =
     \<lparr>kappa = (if \<bar>f64 (I - D)\<bar> > f64 (1 / 100) then 3 else 2),
      theta = clamp (f64 (1 / 10000)) (25 / 100)
                (f64 (f64 (f64 (f64 (7 / 10) * D) * D) + f64 (f64 (f64 (3 / 10) * (1 / 32)) * (1 / 32)))),
      xi = clamp (f64 (1 / 10)) (5 / 10) (f64 (\<bar>f64 (I - D)\<bar> / D)),
      rho = - (5 / 10)\<rparr>"
    using calibrateHestonParams_values [of D "1 / 32" I] pos by blast
  have "kappa (calibrateHestonParams D (1 / 32) I) = 2"
    unfolding eq r0 r1 by (simp add: V_def)
  moreover have "xi (calibrateHestonParams D (1 / 32) I) = 1 / 2"
    unfolding eq r1 r2 f64_tenth by (simp add: clamp_def)
  moreover have "rho (calibrateHestonParams D (1 / 32) I) = - (1 / 2)"
    unfolding eq by simp
  ultimately show ?thesis
    using pos unfolding D_def I_def by simp
qed

text \<open>
  What \<open>estimateJumpParams\<close> does on the inputs where it works: a return is flagged when it
  is more than three sample standard deviations from the mean, and with two or more
  flagged returns, none of them \<open>0\<close>, the emitted bundle has \<open>lambda\<close> the share of flagged
  returns clamped to \<open>[0.01, 1]\<close>, \<open>mu_j = 0\<close> and \<open>sigma_j\<close> the sample standard deviation
  of \<open>ln |jump|\<close> clamped to \<open>[0.01, 0.1]\<close>.
\<close>

lemma detectJumps_flagged:
  "detectJumps rs 3 = filter (\<lambda>r. \<bar>r - mean rs\<bar> > 3 * realizedVolatility rs) rs"
  by (simp add: detectJumps_def Let_def foldl_plus_mean)

lemma foldl_js_add_Fin:
  "foldl (\<lambda>sum j. js_add sum (Fin (f j))) (Fin a) xs = Fin (a + sum_list (map f xs))"
  by (induction xs arbitrary: a) simp_all

lemma estimateJumpParams_two_jumps:
  assumes js: "detectJumps rs 3 = js" and two: "2 \<le> length js" and nz: "0 \<notin> set js"
  shows "estimateJumpParams rs 3 =
     JObj [(''lambda'', jnum (clamp (1 / 100) 1 (real (length js) / real (length rs)))),
           (''mu_j'', jnum 0),
           (''sigma_j'', jnum (clamp (1 / 100) (1 / 10) (sample_stddev (map (\<lambda>j. ln \<bar>j\<bar>) js)))),
           (''kind'', JStr ''merton'')]"
proof -
  define ls where "ls = map (\<lambda>j. ln \<bar>j\<bar>) js"
  have logs: "map (\<lambda>j. js_log \<bar>j\<bar>) js = map Fin ls"
    using nz by (auto simp: ls_def js_log_def)
  have len: "length ls = length js" by (simp add: ls_def)
  have n0: "real (length js) \<noteq> 0" and n1: "real (length js) - 1 \<noteq> 0"
    using two by auto
  have mu: "js_div (foldl js_add (Fin 0) (map Fin ls)) (real (length js)) = Fin (mean ls)"
    using foldl_js_add_Fin [of "\<lambda>x. x" 0 ls] n0
    by (simp add: foldl_map mean_def len)
  have var: "foldl (\<lambda>sum j. js_add sum (js_pow2 (js_sub j (Fin (mean ls))))) (Fin 0) (map Fin ls)
      = Fin (\<Sum>x\<leftarrow>ls. (x - mean ls)\<^sup>2)"
    using foldl_js_add_Fin [of "\<lambda>x. (x - mean ls)\<^sup>2" 0 ls]
    by (simp add: foldl_map js_sub_def)
  have nonneg: "0 \<le> (\<Sum>x\<leftarrow>ls. (x - mean ls)\<^sup>2) / (real (length js) - 1)"
    using two by (intro divide_nonneg_nonneg sum_list_nonneg) auto
  have sd: "js_sqrt (js_div (Fin (\<Sum>x\<leftarrow>ls. (x - mean ls)\<^sup>2)) (real (length js) - 1))
      = Fin (sample_stddev ls)"
    using n1 nonneg by (simp add: sample_stddev_def len)
  have cl: "max lo (min hi x) = clamp lo hi x" if "lo \<le> hi" for lo hi x :: real
    using that by (simp add: clamp_def max_def min_def)
  have "length js \<noteq> 0" using two by auto
  then show ?thesis
    unfolding estimateJumpParams_def js Let_def logs length_map len
    by (simp only: mu var sd) (simp add: cl ls_def)
qed

lemma sqrt_6250000: "sqrt (1 / 6250000) = 1 / 2500"
  by (rule real_sqrt_unique) (simp_all add: power2_eq_square)

lemma realizedVolatility_one_jump: "realizedVolatility one_jump_returns = 4 / 10000"
  by (simp add: realizedVolatility_def one_jump_returns_def Let_def power2_eq_square sqrt_6250000)

lemma detectJumps_one_jump: "detectJumps one_jump_returns 3 = [16 / 10000]"
  unfolding detectJumps_def realizedVolatility_one_jump Let_def
  by (simp add: one_jump_returns_def)

lemma estimateJumpParams_one_jump:
  "estimateJumpParams one_jump_returns 3 =
     JObj [(''lambda'', jnum (1 / 16)), (''mu_j'', jnum 0), (''sigma_j'', JNum NaN),
           (''kind'', JStr ''merton'')]"
  unfolding estimateJumpParams_def detectJumps_one_jump Let_def
  by (simp add: js_log_def js_sub_def one_jump_returns_def)

lemma estimateJumpParams_no_jump:
  "estimateJumpParams [1 / 1000, 1 / 1000] 3 = DEFAULT_JUMP_PARAMS \<and>
   obj_keys (estimateJumpParams [1 / 1000, 1 / 1000] 3) = [''lambda'', ''muJ'', ''sigmaJ'', ''kind''] \<and>
   obj_get (estimateJumpParams [1 / 1000, 1 / 1000] 3) ''mu_j'' = JUndefined \<and>
   obj_get (estimateJumpParams [1 / 1000, 1 / 1000] 3) ''sigma_j'' = JUndefined"
proof -
  have "detectJumps [1 / 1000, 1 / 1000] 3 = []"
    by (simp add: detectJumps_def realizedVolatility_def Let_def)
  then have "estimateJumpParams [1 / 1000, 1 / 1000] 3 = DEFAULT_JUMP_PARAMS"
    by (simp add: estimateJumpParams_def Let_def)
  then show ?thesis
    by (simp add: DEFAULT_JUMP_PARAMS_def)
qed

text \<open>
  C4 at two inputs. With exactly one flagged return (a series of sixteen minute returns,
  one of \<open>0.0016\<close> and fifteen of \<open>0\<close>) the divisor \<^verbatim>\<open>logJumps.length - 1\<close> is \<open>0\<close>, the
  variance is \<^verbatim>\<open>0 / 0\<close>, and the emitted \<open>sigma_j\<close> is \<^verbatim>\<open>NaN\<close>, which the clamp to
  \<open>[0.01, 0.1]\<close> does not catch. With no flagged return the function returns
  \<^verbatim>\<open>DEFAULT_JUMP_PARAMS\<close>, whose keys are \<^verbatim>\<open>muJ\<close> and \<^verbatim>\<open>sigmaJ\<close>: the result has no \<open>mu_j\<close>
  and no \<open>sigma_j\<close>.
\<close>

theorem estimateJumpParams_failing_inputs:
  "estimateJumpParams one_jump_returns 3 =
     JObj [(''lambda'', jnum (1 / 16)), (''mu_j'', jnum 0), (''sigma_j'', JNum NaN),
           (''kind'', JStr ''merton'')] \<and>
   estimateJumpParams [1 / 1000, 1 / 1000] 3 = DEFAULT_JUMP_PARAMS \<and>
   obj_keys (estimateJumpParams [1 / 1000, 1 / 1000] 3) = [''lambda'', ''muJ'', ''sigmaJ'', ''kind''] \<and>
   obj_get (estimateJumpParams [1 / 1000, 1 / 1000] 3) ''mu_j'' = JUndefined \<and>
   obj_get (estimateJumpParams [1 / 1000, 1 / 1000] 3) ''sigma_j'' = JUndefined"
  using estimateJumpParams_one_jump estimateJumpParams_no_jump by blast

text \<open>The doubles of the decimal literals of \<^verbatim>\<open>detectRegime\<close>.\<close>

lemma f64_six_tenths: "f64 (6 / 10) = 5404319552844595 / 2 ^ 53"
  using f64_eqI [of "6 / 10" 53 5404319552844595] by simp

lemma f64_four_tenths: "f64 (4 / 10) = 3602879701896397 / 2 ^ 53"
  using f64_eqI [of "4 / 10" 54 7205759403792794] by simp

lemma f64_two_tenths: "f64 (2 / 10) = 3602879701896397 / 2 ^ 54"
  using f64_eqI [of "2 / 10" 55 7205759403792794] by simp

lemma f64_two_hundredths: "f64 (2 / 100) = 5764607523034235 / 2 ^ 58"
  using f64_eqI [of "2 / 100" 58 5764607523034235] by simp

text \<open>The four scores: \<open>0.6 + 0.2\<close>, \<open>0.6 + 0\<close>, \<open>0.4 + 0.2\<close> and \<open>0.4 + 0\<close> in doubles.\<close>

lemma bullScore_values:
  "f64_add (f64 (6 / 10)) (f64 (2 / 10)) = 3602879701896397 / 2 ^ 52"
  "f64_add (f64 (6 / 10)) 0 = 5404319552844595 / 2 ^ 53"
  "f64_add (f64 (4 / 10)) (f64 (2 / 10)) = 1351079888211149 / 2 ^ 51"
  "f64_add (f64 (4 / 10)) 0 = 3602879701896397 / 2 ^ 53"
proof -
  show "f64_add (f64 (6 / 10)) (f64 (2 / 10)) = 3602879701896397 / 2 ^ 52"
    unfolding f64_add_def f64_six_tenths f64_two_tenths
    using f64_tie_eqI [of "5404319552844595 / 2 ^ 53 + 3602879701896397 / 2 ^ 54" 53 7205759403792794]
    by simp
  show "f64_add (f64 (6 / 10)) 0 = 5404319552844595 / 2 ^ 53"
    unfolding f64_add_def f64_six_tenths
    using f64_eqI [of "5404319552844595 / 2 ^ 53 + 0" 53 5404319552844595] by simp
  show "f64_add (f64 (4 / 10)) (f64 (2 / 10)) = 1351079888211149 / 2 ^ 51"
    unfolding f64_add_def f64_four_tenths f64_two_tenths
    using f64_tie_eqI [of "3602879701896397 / 2 ^ 53 + 3602879701896397 / 2 ^ 54" 53 5404319552844596]
    by simp
  show "f64_add (f64 (4 / 10)) 0 = 3602879701896397 / 2 ^ 53"
    unfolding f64_add_def f64_four_tenths
    using f64_eqI [of "3602879701896397 / 2 ^ 53 + 0" 54 7205759403792794] by simp
qed

text \<open>Their complements \<open>1 - bullScore\<close> in doubles.\<close>

lemma bearScore_values:
  "f64_sub 1 (3602879701896397 / 2 ^ 52) = 900719925474099 / 2 ^ 52"
  "f64_sub 1 (5404319552844595 / 2 ^ 53) = 3602879701896397 / 2 ^ 53"
  "f64_sub 1 (1351079888211149 / 2 ^ 51) = 900719925474099 / 2 ^ 51"
  "f64_sub 1 (3602879701896397 / 2 ^ 53) = 5404319552844595 / 2 ^ 53"
proof -
  show "f64_sub 1 (3602879701896397 / 2 ^ 52) = 900719925474099 / 2 ^ 52"
    unfolding f64_sub_def
    using f64_eqI [of "1 - 3602879701896397 / 2 ^ 52" 55 7205759403792792] by simp
  show "f64_sub 1 (5404319552844595 / 2 ^ 53) = 3602879701896397 / 2 ^ 53"
    unfolding f64_sub_def
    using f64_eqI [of "1 - 5404319552844595 / 2 ^ 53" 54 7205759403792794] by simp
  show "f64_sub 1 (1351079888211149 / 2 ^ 51) = 900719925474099 / 2 ^ 51"
    unfolding f64_sub_def
    using f64_eqI [of "1 - 1351079888211149 / 2 ^ 51" 54 7205759403792792] by simp
  show "f64_sub 1 (3602879701896397 / 2 ^ 53) = 5404319552844595 / 2 ^ 53"
    unfolding f64_sub_def
    using f64_eqI [of "1 - 3602879701896397 / 2 ^ 53" 53 5404319552844595] by simp
qed

text \<open>
  The run of \<^verbatim>\<open>detectRegime\<close> on the cancelling returns, one rounding at a time: the sum
  is left at \<open>2\<^sup>-\<^sup>5\<^sup>9\<close> by the roundings of its additions, so the average is positive.
\<close>

lemma detectRegime_cancelling_returns:
  "detectRegime cancelling_returns =
     \<lparr>current = BULL,
      probabilities = (5404319552844595 / 2 ^ 53, 3602879701896397 / 2 ^ 53)\<rparr>"
proof -
  define A :: real where "A = 5764607523034235 / 2 ^ 59"
  define B :: real where "B = 3602879701896397 / 2 ^ 56"
  define V2 :: real where "V2 = 8646911284551353 / 2 ^ 57"
  define V3 :: real where "V3 = 1441151880758559 / 2 ^ 57"
  define V4 :: real where "V4 = 1 / 2 ^ 59"
  define V5 :: real where "V5 = 3602879701896397 / 2 ^ 114"
  define V6 :: real where "V6 = 7378697629483821 / 2 ^ 66"
  define V7 :: real where "V7 = 1441151880758559 / 2 ^ 59"
  define V8 :: real where "V8 = 5995191823955605 / 2 ^ 61"
  define V9 :: real where "V9 = 734987459186865 / 2 ^ 57"
  define V10 :: real where "V10 = 5995191823955605 / 2 ^ 60"
  define V11 :: real where "V11 = 1441151880758559 / 2 ^ 175"
  define V12 :: real where "V12 = 5329059399071649 / 2 ^ 63"
  define V13 :: real where "V13 = 6928196002408465 / 2 ^ 58"
  define V14 :: real where "V14 = 5404319552844595 / 2 ^ 53"
  define V15 :: real where "V15 = 3602879701896397 / 2 ^ 53"
  define V17 :: real where "V17 = 5764607523034235 / 2 ^ 58"
  have r0: "f64 (0 + A) = A"
    using f64_eqI [of "0 + A" 59 5764607523034235] by (simp add: A_def)
  have r1: "f64 (A + B) = V2"
    using f64_eqI [of "A + B" 57 8646911284551353] by (simp add: A_def B_def V2_def)
  have r2: "f64 (V2 + (- B)) = V3"
    using f64_eqI [of "V2 + (- B)" 59 5764607523034236] by (simp add: B_def V2_def V3_def)
  have r3: "f64 (V3 + (- A)) = V4"
    using f64_eqI [of "V3 + (- A)" 111 4503599627370496] by (simp add: A_def V3_def V4_def)
  have r4: "f64 (V4 + 0) = V4"
    using f64_eqI [of "V4 + 0" 111 4503599627370496] by (simp add: V4_def)
  have r5: "f64 (V4 / 10) = V5"
    using f64_eqI [of "V4 / 10" 115 7205759403792794] by (simp add: V4_def V5_def)
  have r6: "f64 (A - V5) = A"
    using f64_eqI [of "A - V5" 59 5764607523034235] by (simp add: A_def V5_def)
  have r7: "f64 (A\<^sup>2) = V6"
    using f64_eqI [of "A\<^sup>2" 66 7378697629483821] by (simp add: power2_eq_square A_def V6_def)
  have r8: "f64 (0 + V6) = V6"
    using f64_eqI [of "0 + V6" 66 7378697629483821] by (simp add: V6_def)
  have r9: "f64 (B - V5) = B"
    using f64_eqI [of "B - V5" 57 7205759403792794] by (simp add: B_def V5_def)
  have r10: "f64 (B\<^sup>2) = V7"
    using f64_eqI [of "B\<^sup>2" 61 5764607523034236] by (simp add: power2_eq_square B_def V7_def)
  have r11: "f64 (V6 + V7) = V8"
    using f64_eqI [of "V6 + V7" 61 5995191823955605] by (simp add: V6_def V7_def V8_def)
  have r12: "f64 ((- B) - V5) = (- B)"
    using f64_eqI [of "(- B) - V5" 57 "- 7205759403792794"] by (simp add: B_def V5_def)
  have r13: "f64 ((- B)\<^sup>2) = V7"
    using f64_eqI [of "(- B)\<^sup>2" 61 5764607523034236] by (simp add: power2_eq_square B_def V7_def)
  have r14: "f64 (V8 + V7) = V9"
    using f64_tie_eqI [of "V8 + V7" 60 5879899673494920] by (simp add: V7_def V8_def V9_def)
  have r15: "f64 ((- A) - V5) = (- A)"
    using f64_eqI [of "(- A) - V5" 59 "- 5764607523034235"] by (simp add: A_def V5_def)
  have r16: "f64 ((- A)\<^sup>2) = V6"
    using f64_eqI [of "(- A)\<^sup>2" 66 7378697629483821] by (simp add: power2_eq_square A_def V6_def)
  have r17: "f64 (V9 + V6) = V10"
    using f64_eqI [of "V9 + V6" 60 5995191823955605] by (simp add: V10_def V6_def V9_def)
  have r18: "f64 (0 - V5) = (- V5)"
    using f64_eqI [of "0 - V5" 115 "- 7205759403792794"] by (simp add: V5_def)
  have r19: "f64 ((- V5)\<^sup>2) = V11"
    using f64_eqI [of "(- V5)\<^sup>2" 177 5764607523034236] by (simp add: power2_eq_square V11_def V5_def)
  have r20: "f64 (V10 + V11) = V10"
    using f64_eqI [of "V10 + V11" 60 5995191823955605] by (simp add: V10_def V11_def)
  have r21: "f64 (V10 / 9) = V12"
    using f64_eqI [of "V10 / 9" 63 5329059399071649] by (simp add: V10_def V12_def)
  have r22: "f64 (sqrt V12) = V13"
    using f64_sqrt_eqI [of "V12" 6928196002408465 58] by (simp add: V12_def V13_def power2_eq_square)
  have r23: "f64 (6 / 10) = V14"
    using f64_eqI [of "6 / 10" 53 5404319552844595] by (simp add: V14_def)
  have r24: "f64 (4 / 10) = V15"
    using f64_eqI [of "4 / 10" 54 7205759403792794] by (simp add: V15_def)
  have r26: "f64 (2 / 100) = V17"
    using f64_eqI [of "2 / 100" 58 5764607523034235] by (simp add: V17_def)
  have r29: "f64 (V14 + 0) = V14"
    using f64_eqI [of "V14 + 0" 53 5404319552844595] by (simp add: V14_def)
  have r32: "f64 (1 - V14) = V15"
    using f64_eqI [of "1 - V14" 54 7205759403792794] by (simp add: V14_def V15_def)
  have xs: "cancelling_returns = [A, B, - B, - A, 0, 0, 0, 0, 0, 0]"
    by (simp add: cancelling_returns_def A_def B_def)
  have len: "length cancelling_returns = 10"
    by (simp add: cancelling_returns_def)
  have sl: "slice_last 20 cancelling_returns = cancelling_returns"
    by (simp add: slice_last_def len)
  have n10: "\<not> length cancelling_returns < 10" and n2: "\<not> length cancelling_returns < 2"
    and rl: "real (length cancelling_returns) = 10"
    by (simp_all add: len)
  have nine: "(10 :: real) - 1 = 9"
    by simp
  have avg: "f64 (foldl (\<lambda>sum r. f64 (sum + r)) 0 cancelling_returns / 10) = V5"
    unfolding xs by (simp only: foldl_Cons foldl_Nil r0 r1 r2 r3 r4 r5)
  have var: "f64 (foldl (\<lambda>sum r. f64 (sum + f64 ((f64 (r - V5))\<^sup>2))) 0 cancelling_returns / 9)
               = V12"
    unfolding xs
    by (simp only: foldl_Cons foldl_Nil r6 r7 r8 r9 r10 r11 r12 r13 r14 r15 r16 r17 r18 r19 r20
          r21)
  have vol: "realizedVolatility_f64 cancelling_returns = V13"
    unfolding realizedVolatility_f64_def Let_def f64_add_def f64_sub_def f64_div_def f64_sqrt_def
    by (simp only: n2 if_False rl nine avg var r22)
  have pos: "0 < V5"
    by (simp add: V5_def)
  have calm: "\<not> V13 < V17"
    by (simp add: V13_def V17_def)
  have gt: "V15 < V14"
    by (simp add: V14_def V15_def)
  have "detectRegime cancelling_returns = \<lparr>current = BULL, probabilities = (V14, V15)\<rparr>"
    unfolding detectRegime_def Let_def sl vol
    unfolding f64_add_def f64_sub_def f64_div_def
    by (simp only: n10 if_False if_True rl avg pos calm r23 r24 r26 r29 r32 gt)
  then show ?thesis
    by (simp only: V14_def V15_def)
qed


text \<open>
  C8, counterexample. On the cancelling returns the mean \<open>m\<close> is \<open>0\<close> and the realized
  volatility is above \<open>0.02\<close>, so the classifier of the specification emits \<open>BEAR\<close> with
  \<open>[0.4, 0.6]\<close>. \<^verbatim>\<open>detectRegime\<close> sums the returns from left to right in double precision,
  is left with the average \<open>1.7e-19 > 0\<close>, and emits \<open>BULL\<close> with \<open>[0.6, 0.4]\<close>.
\<close>

theorem detectRegime_mean_counterexample:
  "detectRegime cancelling_returns =
     \<lparr>current = BULL,
      probabilities = (5404319552844595 / 2 ^ 53, 3602879701896397 / 2 ^ 53)\<rparr> \<and>
   mean (drop (length cancelling_returns - 20) cancelling_returns) = 0 \<and>
   regime_classifier_spec cancelling_returns =
     \<lparr>current = BEAR, probabilities = (4 / 10, 6 / 10)\<rparr>"
proof -
  have w: "drop (length cancelling_returns - 20) cancelling_returns = cancelling_returns"
    by (simp add: cancelling_returns_def)
  have m: "mean cancelling_returns = 0"
    by (simp add: mean_def cancelling_returns_def)
  have "(2 / 100 :: real) \<le> sqrt ((\<Sum>x\<leftarrow>cancelling_returns. x\<^sup>2) / 9)"
    by (rule real_le_rsqrt) (simp add: cancelling_returns_def power2_eq_square)
  then have v: "\<not> sample_stddev cancelling_returns < 2 / 100"
    by (simp add: sample_stddev_def m) (simp add: cancelling_returns_def)
  have b: "bull_score cancelling_returns = 4 / 10"
    unfolding bull_score_def Let_def w by (simp only: m v if_False) simp
  have "regime_classifier_spec cancelling_returns =
          \<lparr>current = BEAR, probabilities = (4 / 10, 6 / 10)\<rparr>"
    unfolding regime_classifier_spec_def b by (simp add: cancelling_returns_def)
  with w m show ?thesis
    by (simp only: detectRegime_cancelling_returns simp_thms)
qed

text \<open>
  C8, as amended. With fewer than 10 returns \<^verbatim>\<open>detectRegime\<close> emits \<open>BULL\<close> with
  \<open>[0.5, 0.5]\<close>. Otherwise, with \<open>m\<close> the average and \<open>\<sigma>\<close> the realized volatility of the last
  20 returns as the code computes them (sums from left to right, every operation rounded to
  a double), \<open>bullScore = (m > 0 ? 0.6 : 0.4) + (\<sigma> < 0.02 ? 0.2 : 0)\<close> and
  \<open>bearScore = 1 - bullScore\<close> in double precision, the regime is the one with the larger
  score and the probabilities are the two scores. The scores are \<open>[0.8, 0.19999999999999996]\<close>,
  \<open>[0.6, 0.4]\<close>, \<open>[0.6000000000000001, 0.3999999999999999]\<close> or \<open>[0.4, 0.6]\<close>, they never tie,
  and \<open>BEAR\<close> is emitted exactly when neither test succeeds. In every case the two
  probabilities sum to \<open>1\<close> and lie in \<open>[0, 1]\<close>.
\<close>

theorem detectRegime_classifier:
  "(length rs < 10 \<longrightarrow>
      detectRegime rs = \<lparr>current = BULL, probabilities = (5 / 10, 5 / 10)\<rparr>) \<and>
   (10 \<le> length rs \<longrightarrow>
      (let window = slice_last 20 rs;
           m = f64_div (foldl (\<lambda>sum r. f64_add sum r) 0 window) (real (length window));
           \<sigma> = realizedVolatility_f64 window;
           bullScore = f64_add (if m > 0 then f64 (6 / 10) else f64 (4 / 10))
                         (if \<sigma> < f64 (2 / 100) then f64 (2 / 10) else 0);
           bearScore = f64_sub 1 bullScore
       in detectRegime rs =
            \<lparr>current = (if bullScore > bearScore then BULL else BEAR),
             probabilities = (bullScore, bearScore)\<rparr> \<and>
          bullScore \<noteq> bearScore \<and>
          (bullScore, bearScore) =
            (if m > 0
             then if \<sigma> < f64 (2 / 100)
                  then (3602879701896397 / 2 ^ 52, 900719925474099 / 2 ^ 52)
                  else (5404319552844595 / 2 ^ 53, 3602879701896397 / 2 ^ 53)
             else if \<sigma> < f64 (2 / 100)
                  then (1351079888211149 / 2 ^ 51, 900719925474099 / 2 ^ 51)
                  else (3602879701896397 / 2 ^ 53, 5404319552844595 / 2 ^ 53)) \<and>
          (current (detectRegime rs) = BEAR \<longleftrightarrow> m \<le> 0 \<and> f64 (2 / 100) \<le> \<sigma>))) \<and>
   fst (probabilities (detectRegime rs)) + snd (probabilities (detectRegime rs)) = 1 \<and>
   0 \<le> fst (probabilities (detectRegime rs)) \<and> fst (probabilities (detectRegime rs)) \<le> 1 \<and>
   0 \<le> snd (probabilities (detectRegime rs)) \<and> snd (probabilities (detectRegime rs)) \<le> 1"
proof -
  define m where
    "m = f64_div (foldl (\<lambda>sum r. f64_add sum r) 0 (slice_last 20 rs))
           (real (length (slice_last 20 rs)))"
  define v where "v = realizedVolatility_f64 (slice_last 20 rs)"
  define bull where
    "bull = f64_add (if m > 0 then f64 (6 / 10) else f64 (4 / 10))
              (if v < f64 (2 / 100) then f64 (2 / 10) else 0)"
  define bear where "bear = f64_sub 1 bull"
  have short: "detectRegime rs = \<lparr>current = BULL, probabilities = (5 / 10, 5 / 10)\<rparr>"
    if "length rs < 10"
    using that by (simp add: detectRegime_def)
  have long: "detectRegime rs =
      \<lparr>current = (if bull > bear then BULL else BEAR), probabilities = (bull, bear)\<rparr>"
    if "10 \<le> length rs"
  proof -
    have n: "\<not> length rs < 10"
      using that by simp
    show ?thesis
      unfolding detectRegime_def Let_def bear_def bull_def m_def v_def by (simp only: n if_False)
  qed
  have tab: "(bull, bear) =
      (if m > 0
       then if v < f64 (2 / 100)
            then (3602879701896397 / 2 ^ 52, 900719925474099 / 2 ^ 52)
            else (5404319552844595 / 2 ^ 53, 3602879701896397 / 2 ^ 53)
       else if v < f64 (2 / 100)
            then (1351079888211149 / 2 ^ 51, 900719925474099 / 2 ^ 51)
            else (3602879701896397 / 2 ^ 53, 5404319552844595 / 2 ^ 53))"
    unfolding bear_def bull_def
    by (cases "m > 0"; cases "v < f64 (2 / 100)")
       (simp_all only: if_True if_False bullScore_values bearScore_values)
  have ne: "bull \<noteq> bear"
    using tab by (cases "m > 0"; cases "v < f64 (2 / 100)") simp_all
  have cur: "current (detectRegime rs) = BEAR \<longleftrightarrow> m \<le> 0 \<and> f64 (2 / 100) \<le> v"
    if "10 \<le> length rs"
    using tab long [OF that] by (cases "m > 0"; cases "v < f64 (2 / 100)") simp_all
  have probs: "fst (probabilities (detectRegime rs)) + snd (probabilities (detectRegime rs)) = 1 \<and>
      0 \<le> fst (probabilities (detectRegime rs)) \<and> fst (probabilities (detectRegime rs)) \<le> 1 \<and>
      0 \<le> snd (probabilities (detectRegime rs)) \<and> snd (probabilities (detectRegime rs)) \<le> 1"
  proof (cases "length rs < 10")
    case True
    then show ?thesis
      by (simp add: short)
  next
    case False
    then have l: "10 \<le> length rs"
      by simp
    show ?thesis
      using tab long [OF l] by (cases "m > 0"; cases "v < f64 (2 / 100)") simp_all
  qed
  have "(length rs < 10 \<longrightarrow>
          detectRegime rs = \<lparr>current = BULL, probabilities = (5 / 10, 5 / 10)\<rparr>) \<and>
        (10 \<le> length rs \<longrightarrow>
          detectRegime rs =
            \<lparr>current = (if bull > bear then BULL else BEAR), probabilities = (bull, bear)\<rparr> \<and>
          bull \<noteq> bear \<and>
          (bull, bear) =
            (if m > 0
             then if v < f64 (2 / 100)
                  then (3602879701896397 / 2 ^ 52, 900719925474099 / 2 ^ 52)
                  else (5404319552844595 / 2 ^ 53, 3602879701896397 / 2 ^ 53)
             else if v < f64 (2 / 100)
                  then (1351079888211149 / 2 ^ 51, 900719925474099 / 2 ^ 51)
                  else (3602879701896397 / 2 ^ 53, 5404319552844595 / 2 ^ 53)) \<and>
          (current (detectRegime rs) = BEAR \<longleftrightarrow> m \<le> 0 \<and> f64 (2 / 100) \<le> v)) \<and>
        fst (probabilities (detectRegime rs)) + snd (probabilities (detectRegime rs)) = 1 \<and>
        0 \<le> fst (probabilities (detectRegime rs)) \<and> fst (probabilities (detectRegime rs)) \<le> 1 \<and>
        0 \<le> snd (probabilities (detectRegime rs)) \<and> snd (probabilities (detectRegime rs)) \<le> 1"
    using short long ne tab cur probs by blast
  then show ?thesis
    unfolding Let_def bear_def bull_def m_def v_def .
qed

theorem detectRegime_classifier_witness:
  "length ([] :: real list) < 10 \<and>
   detectRegime [] = \<lparr>current = BULL, probabilities = (5 / 10, 5 / 10)\<rparr> \<and>
   10 \<le> length cancelling_returns \<and>
   current (detectRegime cancelling_returns) = BULL \<and>
   fst (probabilities (detectRegime cancelling_returns)) \<noteq>
     snd (probabilities (detectRegime cancelling_returns)) \<and>
   fst (probabilities (detectRegime cancelling_returns)) +
     snd (probabilities (detectRegime cancelling_returns)) = 1"
proof -
  have s: "length ([] :: real list) < 10"
    by simp
  have l: "10 \<le> length cancelling_returns"
    by (simp add: cancelling_returns_def)
  have a: "detectRegime [] = \<lparr>current = BULL, probabilities = (5 / 10, 5 / 10)\<rparr>"
    using detectRegime_classifier [of "[]"] s by blast
  have b: "fst (probabilities (detectRegime cancelling_returns)) \<noteq>
      snd (probabilities (detectRegime cancelling_returns))"
    using detectRegime_classifier [of cancelling_returns, THEN conjunct2, THEN conjunct1] l
    unfolding Let_def by (metis RegimeState.select_convs(2) fst_conv snd_conv)
  have c: "fst (probabilities (detectRegime cancelling_returns)) +
      snd (probabilities (detectRegime cancelling_returns)) = 1"
    using detectRegime_classifier [of cancelling_returns] by blast
  have d: "current (detectRegime cancelling_returns) = BULL"
    by (simp add: detectRegime_cancelling_returns)
  from s a l d b c show ?thesis
    by blast
qed

lemma sqrt_default_theta: "sqrt (theta DEFAULT_HESTON_PARAMS) = 2 / 10"
  by (rule real_sqrt_unique) (simp_all add: DEFAULT_HESTON_PARAMS_def power2_eq_square)

lemma GET_fetch_failed:
  assumes "data cache = None \<or> CACHE_TTL \<le> now_check - calibrationCache.timestamp cache"
  shows "GET cache now_check now_data now_cache (Inl err) =
     (cache,
      JObj [(''dailyRV'', jnum (2 / 10)), (''weeklyRV'', jnum (2 / 10)),
            (''intradayRV'', jnum (2 / 10)), (''jumps'', DEFAULT_JUMP_PARAMS),
            (''regime'', JObj [(''current'', JStr ''BULL''),
                               (''probabilities'', JArr [jnum (5 / 10), jnum (5 / 10)])]),
            (''timestamp'', jnum now_data)])"
  using assms by (auto simp: GET_def Let_def sqrt_default_theta)

text \<open>
  The claim C5 as stated fails: with an empty cache and a failed candle request the
  response has the six keys of \<^verbatim>\<open>CalibrationData\<close> and nothing else. It carries no
  \<open>degraded\<close> flag (and no Heston parameters: the default \<open>theta\<close> enters only as the three
  volatilities \<open>sqrt 0.04 = 0.2\<close>).
\<close>

theorem GET_fetch_failed_not_degraded:
  "obj_get (snd (GET \<lparr>data = None, timestamp = 0\<rparr> 1000 1000 1000
      (Inl (FetchFailed ''Failed to fetch candles: Service Unavailable'')))) ''degraded''
     = JUndefined \<and>
   obj_keys (snd (GET \<lparr>data = None, timestamp = 0\<rparr> 1000 1000 1000
      (Inl (FetchFailed ''Failed to fetch candles: Service Unavailable''))))
     = [''dailyRV'', ''weeklyRV'', ''intradayRV'', ''jumps'', ''regime'', ''timestamp'']"
  by (simp add: GET_def Let_def)

text \<open>
  C5, amended. When no fresh calibration is cached (none, or one at least two minutes
  old) and the candle request fails, \<open>GET\<close> leaves the cache as it is and responds with
  \<open>dailyRV = weeklyRV = intradayRV = 0.2\<close> (the square root of the default \<open>theta = 0.04\<close>),
  \<open>jumps\<close> the constant \<^verbatim>\<open>DEFAULT_JUMP_PARAMS\<close> (\<open>lambda = 0.1\<close>, \<open>kind = merton\<close>), the regime
  \<open>BULL\<close> with probabilities \<open>[0.5, 0.5]\<close> and the time of the response; the result carries
  no \<open>degraded\<close> flag.
\<close>

theorem GET_fetch_failed_defaults:
  "data cache = None \<or> CACHE_TTL \<le> now_check - calibrationCache.timestamp cache \<longrightarrow>
   GET cache now_check now_data now_cache (Inl err) =
     (cache,
      JObj [(''dailyRV'', jnum (2 / 10)), (''weeklyRV'', jnum (2 / 10)),
            (''intradayRV'', jnum (2 / 10)), (''jumps'', DEFAULT_JUMP_PARAMS),
            (''regime'', JObj [(''current'', JStr ''BULL''),
                               (''probabilities'', JArr [jnum (5 / 10), jnum (5 / 10)])]),
            (''timestamp'', jnum now_data)]) \<and>
   obj_get DEFAULT_JUMP_PARAMS ''lambda'' = jnum (1 / 10) \<and>
   obj_get DEFAULT_JUMP_PARAMS ''kind'' = JStr ''merton'' \<and>
   obj_get (snd (GET cache now_check now_data now_cache (Inl err))) ''degraded'' = JUndefined"
  using GET_fetch_failed [of cache now_check now_data now_cache err]
  by (auto simp: DEFAULT_JUMP_PARAMS_def)

theorem GET_fetch_failed_defaults_witness:
  "(data \<lparr>data = Some (JObj []), timestamp = 0\<rparr> = None \<or>
    CACHE_TTL \<le> 120000 - calibrationCache.timestamp \<lparr>data = Some (JObj []), timestamp = 0\<rparr>) \<and>
   GET \<lparr>data = Some (JObj []), timestamp = 0\<rparr> 120000 120001 120002
       (Inl (FetchFailed ''Failed to fetch candles: Service Unavailable'')) =
     (\<lparr>data = Some (JObj []), timestamp = 0\<rparr>,
      JObj [(''dailyRV'', jnum (2 / 10)), (''weeklyRV'', jnum (2 / 10)),
            (''intradayRV'', jnum (2 / 10)), (''jumps'', DEFAULT_JUMP_PARAMS),
            (''regime'', JObj [(''current'', JStr ''BULL''),
                               (''probabilities'', JArr [jnum (5 / 10), jnum (5 / 10)])]),
            (''timestamp'', jnum 120001)])"
  using GET_fetch_failed_defaults [of "\<lparr>data = Some (JObj []), timestamp = 0\<rparr>" 120000 120001 120002
      "FetchFailed ''Failed to fetch candles: Service Unavailable''"]
  by (simp add: CACHE_TTL_def)

section \<open>Simulation inputs\<close>

text \<open>
  C9. For every calibration bundle and multipliers in \<open>[0.9, 1.1]\<close>, the inputs that
  \<open>prepareSimInputs\<close> builds have \<open>theta = (dailyRV vol_mult)\<^sup>2\<close> (in the \<open>BULL\<close> regime; the
  \<open>BEAR\<close> regime scales the same \<open>theta\<close> by \<open>1.2\<close>), \<open>jumps.lambda\<close> the calibrated
  \<open>lambda\<close> times \<open>jump_intensity_mult\<close> and \<open>jumps.sigma_j\<close> the calibrated \<open>sigma_j\<close> times
  \<open>jump_size_mult\<close>.
\<close>

theorem prepareSimInputs_sensitivity:
  "9 / 10 \<le> vm \<and> vm \<le> 11 / 10 \<and> 9 / 10 \<le> jim \<and> jim \<le> 11 / 10 \<and>
   9 / 10 \<le> jsm \<and> jsm \<le> 11 / 10 \<longrightarrow>
   (let inputs = prepareSimInputs market calibration price
        (Some \<lparr>volatilityMultiplier = vm, jumpIntensityMultiplier = jim,
               jumpSizeMultiplier = jsm\<rparr>) now
    in theta (heston (regimes inputs BULL)) = (dailyRV calibration * vm)\<^sup>2 \<and>
       theta (heston (regimes inputs BEAR)) = (dailyRV calibration * vm)\<^sup>2 * (12 / 10) \<and>
       lambda (SimInputs.jumps inputs) = lambda (CalibrationData.jumps calibration) * jim \<and>
       sigma_j (SimInputs.jumps inputs) = sigma_j (CalibrationData.jumps calibration) * jsm \<and>
       mu_j (SimInputs.jumps inputs) = mu_j (CalibrationData.jumps calibration) \<and>
       kind (SimInputs.jumps inputs) = merton)"
  by (simp add: prepareSimInputs_def js_or_def Let_def)

theorem prepareSimInputs_sensitivity_witness:
  "(9 / 10 \<le> (11 / 10 :: real) \<and> (11 / 10 :: real) \<le> 11 / 10 \<and>
    9 / 10 \<le> (9 / 10 :: real) \<and> (9 / 10 :: real) \<le> 11 / 10 \<and>
    9 / 10 \<le> (1 :: real) \<and> (1 :: real) \<le> 11 / 10) \<and>
   (let inputs = prepareSimInputs
        \<lparr>ticker = ''KXBTCD'', close_time = 3600000\<rparr>
        \<lparr>dailyRV = 2 / 10, weeklyRV = 2 / 10, intradayRV = 2 / 10,
         jumps = \<lparr>lambda = 1 / 10, mu_j = 0, sigma_j = 2 / 100\<rparr>,
         regime = \<lparr>current = BULL, probabilities = (5 / 10, 5 / 10)\<rparr>,
         timestamp = 0\<rparr>
        60000
        (Some \<lparr>volatilityMultiplier = 11 / 10, jumpIntensityMultiplier = 9 / 10,
               jumpSizeMultiplier = 1\<rparr>) 0
    in theta (heston (regimes inputs BULL)) = 484 / 10000 \<and>
       theta (heston (regimes inputs BEAR)) = 5808 / 100000 \<and>
       lambda (SimInputs.jumps inputs) = 9 / 100 \<and>
       sigma_j (SimInputs.jumps inputs) = 2 / 100)"
  using prepareSimInputs_sensitivity [where vm = "11 / 10" and jim = "9 / 10" and jsm = 1
      and market = "\<lparr>ticker = ''KXBTCD'', close_time = 3600000\<rparr>"
      and calibration = "\<lparr>dailyRV = 2 / 10, weeklyRV = 2 / 10, intradayRV = 2 / 10,
         jumps = \<lparr>lambda = 1 / 10, mu_j = 0, sigma_j = 2 / 100\<rparr>,
         regime = \<lparr>current = BULL, probabilities = (5 / 10, 5 / 10)\<rparr>,
         timestamp = 0\<rparr>"
      and price = 60000 and now = 0]
  by (simp add: Let_def power2_eq_square)

section \<open>Result cache\<close>

lemma js_round_int_near:
  fixes m :: int and \<delta> :: real
  assumes "- (1 / 2) \<le> \<delta>" and "\<delta> < 1 / 2"
  shows "js_round (of_int m + \<delta>) = m"
  unfolding js_round_def using assms by (intro floor_unique) simp_all

lemma js_round_int_far:
  fixes m :: int and \<delta> :: real
  assumes "1 / 2 < \<bar>\<delta>\<bar>"
  shows "js_round (of_int m + \<delta>) \<noteq> m"
proof
  assume "js_round (of_int m + \<delta>) = m"
  then have "of_int m \<le> of_int m + \<delta> + 1 / 2" and "of_int m + \<delta> + 1 / 2 < of_int m + 1"
    unfolding js_round_def by linarith+
  then show False using assms by linarith
qed

text \<open>
  \<^verbatim>\<open>Math.round\<close> of a rounded product: within \<open>0.49\<close> of an integer of moderate size the
  rounding of the product to a double does not reach the boundary.
\<close>

lemma js_round_f64_near:
  fixes j :: int and u :: real
  assumes u: "\<bar>u - of_int j\<bar> \<le> 49 / 100" and j: "\<bar>j\<bar> \<le> 2 ^ 40"
  shows "js_round (f64 u) = j"
proof -
  have "\<bar>of_int j :: real\<bar> \<le> 2 ^ 40"
  proof -
    have "(of_int \<bar>j\<bar> :: real) \<le> of_int (2 ^ 40)" using j by (simp only: of_int_le_iff)
    then show ?thesis by simp
  qed
  then have "\<bar>u\<bar> \<le> 2 ^ 40 + 1" using u by linarith
  then have "\<bar>u\<bar> / 2 ^ 53 \<le> (2 ^ 40 + 1) / 2 ^ 53"
    by (simp add: divide_right_mono)
  also have "\<dots> \<le> (1 / 1000 :: real)" by simp
  finally have "\<bar>f64 u - u\<bar> \<le> 1 / 1000"
    using f64_error [of u] by linarith
  then have "- (1 / 2) \<le> f64 u - of_int j" and "f64 u - of_int j < 1 / 2"
    using u by linarith+
  then have "js_round (of_int j + (f64 u - of_int j)) = j"
    by (rule js_round_int_near)
  then show ?thesis by simp
qed

text \<open>The fingerprint is injective in its six components.\<close>

lemma generateKey_eq_iff:
  "generateKey k = generateKey k' \<longleftrightarrow>
     marketTicker k = marketTicker k' \<and>
     js_round (CacheKey.s0 k) = js_round (CacheKey.s0 k') \<and>
     f64_div (of_int (js_round (f64_mul (timeToClose k) 10))) 10 =
       f64_div (of_int (js_round (f64_mul (timeToClose k') 10))) 10 \<and>
     volatilityMultiplier (sensitivity k) = volatilityMultiplier (sensitivity k') \<and>
     jumpIntensityMultiplier (sensitivity k) = jumpIntensityMultiplier (sensitivity k') \<and>
     jumpSizeMultiplier (sensitivity k) = jumpSizeMultiplier (sensitivity k')"
  by (simp add: generateKey_def)

text \<open>
  The product \<open>timeToClose * 10\<close> is rounded before \<^verbatim>\<open>Math.round\<close> sees it: from the double
  nearest to \<open>0.15\<close>, which is below \<open>0.15\<close>, the product is the double \<open>1.5\<close> and the
  fingerprint has \<open>t = 0.2\<close>.
\<close>

lemma generateKey_t_rounding:
  "f64_div (of_int (js_round (f64_mul (5404319552844595 / 2 ^ 55) 10))) 10 =
     3602879701896397 / 2 ^ 54"
proof -
  have a: "f64 (5404319552844595 / 2 ^ 55 * 10) = 3 / 2"
    using f64_eqI [of "5404319552844595 / 2 ^ 55 * 10" 52 6755399441055744] by simp
  have b: "of_int (js_round (3 / 2)) = (2 :: real)"
    by (simp add: js_round_def)
  have c: "f64 (2 / 10) = 3602879701896397 / 2 ^ 54"
    using f64_eqI [of "2 / 10" 55 7205759403792794] by simp
  show ?thesis
    unfolding f64_mul_def f64_div_def a b c ..
qed

text \<open>
  The claim C6 as stated fails for a spot price that is not a whole dollar: at
  \<open>s0 = 60000.30\<close> a perturbation of \<open>+0.49\<close> crosses the rounding boundary (\<open>60000.79\<close>
  rounds to \<open>60001\<close>: a miss), and a perturbation of \<open>-0.51\<close> does not (\<open>59999.79\<close> rounds
  to \<open>60000\<close>: a hit).
\<close>

theorem generateKey_perturbation_counterexample:
  "generateKey \<lparr>marketTicker = ''KXBTCD'', s0 = 600003 / 10 + 49 / 100, timeToClose = 1,
      sensitivity = \<lparr>volatilityMultiplier = 1, jumpIntensityMultiplier = 1, jumpSizeMultiplier = 1\<rparr>\<rparr>
   \<noteq> generateKey \<lparr>marketTicker = ''KXBTCD'', s0 = 600003 / 10, timeToClose = 1,
      sensitivity = \<lparr>volatilityMultiplier = 1, jumpIntensityMultiplier = 1, jumpSizeMultiplier = 1\<rparr>\<rparr> \<and>
   generateKey \<lparr>marketTicker = ''KXBTCD'', s0 = 600003 / 10 - 51 / 100, timeToClose = 1,
      sensitivity = \<lparr>volatilityMultiplier = 1, jumpIntensityMultiplier = 1, jumpSizeMultiplier = 1\<rparr>\<rparr>
   = generateKey \<lparr>marketTicker = ''KXBTCD'', s0 = 600003 / 10, timeToClose = 1,
      sensitivity = \<lparr>volatilityMultiplier = 1, jumpIntensityMultiplier = 1, jumpSizeMultiplier = 1\<rparr>\<rparr>"
  by (simp add: generateKey_def js_round_def)

text \<open>
  C6, amended. Two keys have the same fingerprint exactly when they agree on the ticker,
  on \<open>round(s0)\<close>, on \<open>round(10 t) / 10\<close> with the product and the quotient computed in
  double precision, and on the three multipliers. For a key whose \<open>s0\<close> is a whole dollar
  amount, a perturbation of \<open>s0\<close> in \<open>[-0.5, 0.5)\<close>, so one by \<open>\<plusminus>0.49\<close>, leaves the
  fingerprint unchanged, and one of more than \<open>0.5\<close> either way, so one by \<open>\<plusminus>0.51\<close>, changes
  it. For a key whose \<open>10 t\<close> is within \<open>0.08\<close> of a whole number \<open>j\<close>, an hour count within
  \<open>0.008\<close> of a multiple of \<open>0.1\<close> as the double nearest to such a multiple is, a perturbation
  of \<open>t\<close> by at most \<open>0.041\<close> leaves the fingerprint unchanged.
\<close>

theorem generateKey_fingerprint:
  "(generateKey k = generateKey k' \<longleftrightarrow>
      marketTicker k = marketTicker k' \<and>
      js_round (CacheKey.s0 k) = js_round (CacheKey.s0 k') \<and>
      f64_div (of_int (js_round (f64_mul (timeToClose k) 10))) 10 =
        f64_div (of_int (js_round (f64_mul (timeToClose k') 10))) 10 \<and>
      sensitivity k = sensitivity k') \<and>
   (CacheKey.s0 k = of_int m \<and> - (1 / 2) \<le> \<delta> \<and> \<delta> < 1 / 2 \<longrightarrow>
      generateKey (k\<lparr>s0 := CacheKey.s0 k + \<delta>\<rparr>) = generateKey k) \<and>
   (\<bar>timeToClose k * 10 - of_int j\<bar> \<le> 8 / 100 \<and> \<bar>j\<bar> \<le> 2 ^ 40 \<and> \<bar>\<epsilon>\<bar> \<le> 41 / 1000 \<longrightarrow>
      generateKey (k\<lparr>timeToClose := timeToClose k + \<epsilon>\<rparr>) = generateKey k) \<and>
   (CacheKey.s0 k = of_int m \<and> 1 / 2 < \<bar>\<delta>'\<bar> \<longrightarrow>
      generateKey (k\<lparr>s0 := CacheKey.s0 k + \<delta>'\<rparr>) \<noteq> generateKey k)"
proof -
  have eq: "generateKey k = generateKey k' \<longleftrightarrow>
      marketTicker k = marketTicker k' \<and>
      js_round (CacheKey.s0 k) = js_round (CacheKey.s0 k') \<and>
      f64_div (of_int (js_round (f64_mul (timeToClose k) 10))) 10 =
        f64_div (of_int (js_round (f64_mul (timeToClose k') 10))) 10 \<and>
      sensitivity k = sensitivity k'"
    by (cases "sensitivity k"; cases "sensitivity k'") (simp add: generateKey_eq_iff)
  have hit_s0: "generateKey (k\<lparr>s0 := CacheKey.s0 k + \<delta>\<rparr>) = generateKey k"
    if "CacheKey.s0 k = of_int m \<and> - (1 / 2) \<le> \<delta> \<and> \<delta> < 1 / 2"
  proof -
    have "js_round (of_int m + \<delta>) = m" and "js_round (of_int m + 0) = m"
      using that by (intro js_round_int_near; linarith)+
    then show ?thesis using that by (simp add: generateKey_eq_iff)
  qed
  have hit_t: "generateKey (k\<lparr>timeToClose := timeToClose k + \<epsilon>\<rparr>) = generateKey k"
    if h: "\<bar>timeToClose k * 10 - of_int j\<bar> \<le> 8 / 100 \<and> \<bar>j\<bar> \<le> 2 ^ 40 \<and> \<bar>\<epsilon>\<bar> \<le> 41 / 1000"
  proof -
    have "(timeToClose k + \<epsilon>) * 10 - of_int j = (timeToClose k * 10 - of_int j) + \<epsilon> * 10"
      by (simp add: algebra_simps)
    moreover have "\<bar>(timeToClose k * 10 - of_int j) + \<epsilon> * 10\<bar> \<le> 49 / 100"
      using h by linarith
    ultimately have "\<bar>(timeToClose k + \<epsilon>) * 10 - of_int j\<bar> \<le> 49 / 100"
      by (simp only:)
    then have "js_round (f64 ((timeToClose k + \<epsilon>) * 10)) = j"
      using h by (intro js_round_f64_near) simp_all
    moreover have "js_round (f64 (timeToClose k * 10)) = j"
    proof -
      have "\<bar>timeToClose k * 10 - of_int j\<bar> \<le> 49 / 100"
        using h by linarith
      then show ?thesis
        using h by (intro js_round_f64_near) simp_all
    qed
    ultimately show ?thesis by (simp add: generateKey_eq_iff f64_mul_def)
  qed
  have miss_s0: "generateKey (k\<lparr>s0 := CacheKey.s0 k + \<delta>'\<rparr>) \<noteq> generateKey k"
    if "CacheKey.s0 k = of_int m \<and> 1 / 2 < \<bar>\<delta>'\<bar>"
  proof -
    have "js_round (of_int m + \<delta>') \<noteq> m"
      using that by (intro js_round_int_far) linarith
    moreover have "js_round (of_int m + 0) = m"
      by (intro js_round_int_near) simp_all
    ultimately show ?thesis using that by (simp add: generateKey_eq_iff)
  qed
  show ?thesis
    using eq hit_s0 hit_t miss_s0 by blast
qed

theorem generateKey_fingerprint_witness:
  "(CacheKey.s0 (example_key 0) = of_int 60000 \<and> - (1 / 2) \<le> (49 / 100 :: real) \<and>
      (49 / 100 :: real) < 1 / 2) \<and>
   generateKey ((example_key 0)\<lparr>s0 := CacheKey.s0 (example_key 0) + 49 / 100\<rparr>) =
     generateKey (example_key 0) \<and>
   (\<bar>timeToClose (example_key 0) * 10 - of_int 10\<bar> \<le> 8 / 100 \<and> \<bar>10 :: int\<bar> \<le> 2 ^ 40 \<and>
      \<bar>- (4 / 100) :: real\<bar> \<le> 41 / 1000) \<and>
   generateKey ((example_key 0)\<lparr>timeToClose := timeToClose (example_key 0) + - (4 / 100)\<rparr>) =
     generateKey (example_key 0) \<and>
   1 / 2 < \<bar>- (51 / 100) :: real\<bar> \<and>
   generateKey ((example_key 0)\<lparr>s0 := CacheKey.s0 (example_key 0) + - (51 / 100)\<rparr>) \<noteq>
     generateKey (example_key 0)"
proof -
  have s: "CacheKey.s0 (example_key 0) = of_int 60000"
    and t: "\<bar>timeToClose (example_key 0) * 10 - of_int 10\<bar> \<le> 8 / 100"
    by (simp_all add: example_key_def)
  show ?thesis
    using s t
      generateKey_fingerprint [where k = "example_key 0" and k' = "example_key 0" and m = 60000
        and j = 10 and \<delta> = "49 / 100" and \<epsilon> = "- (4 / 100)" and \<delta>' = "- (51 / 100)"]
    by simp
qed



















end
